theory Spec2Isabelle
  imports Complex_Main "HOL-Library.Word" "HOL-Library.Signed_Division"
begin

section \<open>The game module (game.c)\<close>

text \<open>
  A \<open>GAME\<close> is the struct of game.c without its reference count and its mutex:
  the winner (\<open>-1\<close> while the game is running, \<open>0\<close> for a draw, otherwise the role
  of the winner), the role that is next to move, and the nine squares of the board
  in row-major order (\<open>0\<close> empty, otherwise the role whose mark is there).
  Pointers that the C code tests against \<open>NULL\<close> are options.
\<close>

text \<open>
  Modelled from the spec: game.h, which declares the enumeration \<open>GAME_ROLE\<close>, is
  not among the sources. The glossary of the specification gives its values:
  NULL = 0, FIRST_PLAYER = 1, SECOND_PLAYER = 2. game.c itself compares roles with
  these numerals, so a role is an integer here.
\<close>

definition NULL_ROLE :: int where
  "NULL_ROLE = 0"

definition FIRST_PLAYER_ROLE :: int where
  "FIRST_PLAYER_ROLE = 1"

definition SECOND_PLAYER_ROLE :: int where
  "SECOND_PLAYER_ROLE = 2"

record game =
  winner :: int
  nextmover :: int
  board :: "int list"

record game_move =
  spot :: int
  role :: int

definition game_create :: game where
  "game_create = \<lparr>winner = - 1, nextmover = 1, board = replicate 9 0\<rparr>"

text \<open>
  \<open>check\<close> runs through the board: first the test for a full board, then the eight
  lines in the order of the source.
\<close>

definition check :: "int list \<Rightarrow> int" where
  "check b =
    (if 0 \<notin> set (take 9 b) then 0
     else if b ! 2 = b ! 4 \<and> b ! 2 = b ! 6 \<and> b ! 2 \<noteq> 0 then b ! 2
     else if b ! 0 = b ! 4 \<and> b ! 0 = b ! 8 \<and> b ! 0 \<noteq> 0 then b ! 0
     else if b ! 2 = b ! 5 \<and> b ! 2 = b ! 8 \<and> b ! 2 \<noteq> 0 then b ! 2
     else if b ! 1 = b ! 4 \<and> b ! 1 = b ! 7 \<and> b ! 1 \<noteq> 0 then b ! 1
     else if b ! 0 = b ! 3 \<and> b ! 0 = b ! 6 \<and> b ! 0 \<noteq> 0 then b ! 0
     else if b ! 6 = b ! 7 \<and> b ! 6 = b ! 8 \<and> b ! 6 \<noteq> 0 then b ! 6
     else if b ! 3 = b ! 4 \<and> b ! 3 = b ! 5 \<and> b ! 3 \<noteq> 0 then b ! 3
     else if b ! 0 = b ! 1 \<and> b ! 0 = b ! 2 \<and> b ! 0 \<noteq> 0 then b ! 0
     else - 1)"

text \<open>
  \<open>game_apply_move\<close> returns the C return code together with the game as the call
  leaves it. The tests are those of the source, in its order; none of them reads
  \<open>nextmover\<close>.
\<close>

definition game_apply_move :: "game option \<Rightarrow> game_move option \<Rightarrow> int \<times> game option" where
  "game_apply_move gp mp =
    (case gp of None \<Rightarrow> (- 1, gp) | Some g \<Rightarrow>
     (case mp of None \<Rightarrow> (- 1, gp) | Some m \<Rightarrow>
       if spot m < 0 \<or> spot m > 8 then (- 1, gp)
       else if role m < 1 \<or> role m > 2 then (- 1, gp)
       else if winner g \<noteq> - 1 then (- 1, gp)
       else if board g ! nat (spot m) \<noteq> 0 then (- 1, gp)
       else
         (let b = (board g)[nat (spot m) := role m] in
          (0, Some (g\<lparr>board := b, winner := check b,
                       nextmover := (if nextmover g = 1 then 2 else 1)\<rparr>)))))"

definition game_resign :: "game option \<Rightarrow> int \<Rightarrow> int \<times> game option" where
  "game_resign gp r =
    (case gp of None \<Rightarrow> (- 1, gp) | Some g \<Rightarrow>
      if r = NULL_ROLE then (- 1, gp)
      else if r \<noteq> 1 \<and> r \<noteq> 2 then (- 1, gp)
      else if winner g \<noteq> - 1 then (- 1, gp)
      else if r = 1 then (0, Some (g\<lparr>winner := SECOND_PLAYER_ROLE\<rparr>))
      else (0, Some (g\<lparr>winner := FIRST_PLAYER_ROLE\<rparr>)))"

definition game_is_over :: "game \<Rightarrow> int" where
  "game_is_over g = (if winner g \<noteq> - 1 then 1 else 0)"

definition game_get_winner :: "game \<Rightarrow> int" where
  "game_get_winner g = winner g"

text \<open>
  \<open>atoi\<close> on the one-character string that \<open>game_parse_move\<close> builds from the first
  byte of the move: a decimal digit gives its value, anything else (also the
  terminating byte of an empty string) gives 0.
\<close>

definition atoi1 :: "string \<Rightarrow> int" where
  "atoi1 s =
    (case s of [] \<Rightarrow> 0
     | c # cs \<Rightarrow> if 48 \<le> (of_char c :: nat) \<and> (of_char c :: nat) \<le> 57
                 then int (of_char c) - 48 else 0)"

definition game_parse_move :: "game option \<Rightarrow> int \<Rightarrow> string option \<Rightarrow> game_move option" where
  "game_parse_move gp r sp =
    (case sp of None \<Rightarrow> None | Some s \<Rightarrow>
     (case gp of None \<Rightarrow> None | Some g \<Rightarrow>
       if r < 0 \<or> r > 2 then None
       else if r = NULL_ROLE \<and> r \<noteq> nextmover g then None
       else Some \<lparr>spot = atoi1 s - 1, role = r\<rparr>))"

definition role_to_xo :: "int \<Rightarrow> char" where
  "role_to_xo r =
    (if r = 1 then CHR ''X'' else if r = 2 then CHR ''O''
     else if r = 0 then CHR '' '' else CHR 0x00)"

text \<open>
  \<open>fill_string\<close> writes the 40 characters of the state description; the caller's
  buffer has 41 bytes and the last one is the terminator.
\<close>

definition fill_string :: "int list \<Rightarrow> int \<Rightarrow> string" where
  "fill_string b nm =
    [role_to_xo (b ! 0), CHR ''|'', role_to_xo (b ! 1), CHR ''|'', role_to_xo (b ! 2), CHR 0x0A]
    @ ''-----'' @ [CHR 0x0A]
    @ [role_to_xo (b ! 3), CHR ''|'', role_to_xo (b ! 4), CHR ''|'', role_to_xo (b ! 5), CHR 0x0A]
    @ ''-----'' @ [CHR 0x0A]
    @ [role_to_xo (b ! 6), CHR ''|'', role_to_xo (b ! 7), CHR ''|'', role_to_xo (b ! 8), CHR 0x0A]
    @ [role_to_xo nm] @ '' to move'' @ [CHR 0x0A]"

definition game_unparse_state :: "game option \<Rightarrow> string option" where
  "game_unparse_state gp =
    (case gp of None \<Rightarrow> None | Some g \<Rightarrow> Some (fill_string (board g) (nextmover g)))"

text \<open>The C string functions see a buffer up to its first zero byte.\<close>

definition strlen :: "string \<Rightarrow> nat" where
  "strlen s = length (takeWhile (\<lambda>c. c \<noteq> CHR 0x00) s)"

section \<open>Double-precision arithmetic (player.c)\<close>

text \<open>
  \<open>player_post_result\<close> computes with C \<open>double\<close>s. A double is modelled by the
  rational number it denotes, or by \<open>PosInf\<close> for the positive infinity that
  \<open>pow\<close> returns on overflow; no other special value arises there, since every
  operand is a sum, quotient or difference of the numbers 0, 1/2, 1, 32 and a power
  of ten. Every operation rounds its exact result to the nearest double, ties to
  the even significand, as IEEE 754 binary64 arithmetic does: 53 significant bits,
  least normal exponent \<open>-1022\<close>, overflow from \<open>2 ^ 1024\<close> on.
\<close>

datatype double = Finite rat | PosInf

definition rne :: "rat \<Rightarrow> int" where
  "rne x = (let f = \<lfloor>x\<rfloor>; r = x - of_int f
            in if r < 1 / 2 then f else if 1 / 2 < r then f + 1
               else if even f then f else f + 1)"

text \<open>
  \<open>expo n q\<close> is the binary exponent of a positive \<open>q\<close>, the \<open>e\<close> with
  \<open>2 powi e \<le> q < 2 powi (e + 1)\<close>, searched for in at most \<open>n\<close> steps. The 1100
  steps of \<open>round_double\<close> reach every exponent from \<open>-1022\<close> to 1024; beyond them
  the number is rounded in the subnormal range or overflows, whatever the exact
  exponent is.
\<close>

fun expo :: "nat \<Rightarrow> rat \<Rightarrow> int" where
  "expo 0 q = 0"
| "expo (Suc n) q =
    (if 2 \<le> q then expo n (q / 2) + 1
     else if q < 1 then expo n (q * 2) - 1
     else 0)"

definition round_double :: "rat \<Rightarrow> double" where
  "round_double q =
    (if q = 0 then Finite 0
     else
       (let e = max (expo 1100 \<bar>q\<bar>) (- 1022);
            u = 2 powi (e - 52);
            r = of_int (rne (q / u)) * u
        in if 2 ^ 1024 \<le> r then PosInf else Finite r))"

definition dadd :: "double \<Rightarrow> double \<Rightarrow> double" where
  "dadd a b = (case (a, b) of (Finite x, Finite y) \<Rightarrow> round_double (x + y) | _ \<Rightarrow> PosInf)"

definition dsub :: "double \<Rightarrow> double \<Rightarrow> double" where
  "dsub a b = (case (a, b) of (Finite x, Finite y) \<Rightarrow> round_double (x - y) | _ \<Rightarrow> PosInf)"

definition dmul :: "double \<Rightarrow> double \<Rightarrow> double" where
  "dmul a b = (case (a, b) of (Finite x, Finite y) \<Rightarrow> round_double (x * y) | _ \<Rightarrow> PosInf)"

text \<open>The divisor of \<open>player_post_result\<close> is \<open>1 + pow(...)\<close>, at least 1 or infinite.\<close>

definition ddiv :: "double \<Rightarrow> double \<Rightarrow> double" where
  "ddiv a b =
    (case (a, b) of
       (Finite x, Finite y) \<Rightarrow> if y = 0 then PosInf else round_double (x / y)
     | (Finite x, PosInf) \<Rightarrow> Finite 0
     | _ \<Rightarrow> PosInf)"

text \<open>
  \<open>pow(10, k)\<close> for an integer \<open>k\<close>: the library function is taken to return the
  double nearest to the power of ten.
\<close>

definition pow10 :: "int \<Rightarrow> double" where
  "pow10 k = round_double (10 powi k)"

text \<open>
  The cast \<open>(int)\<close> of a double drops the fraction. In \<open>player_post_result\<close> an
  infinity only ever reaches the divisor of \<open>ddiv\<close>: the operands of \<open>dsub\<close> and
  \<open>dmul\<close> and the argument of the cast are finite there, so the value given here
  to the other cases is never used.
\<close>

definition to_int :: "double \<Rightarrow> int" where
  "to_int d = (case d of Finite x \<Rightarrow> (if 0 \<le> x then \<lfloor>x\<rfloor> else \<lceil>x\<rceil>) | PosInf \<Rightarrow> 0)"

section \<open>Packets and the wire (protocol.c)\<close>

text \<open>
  Modelled from the spec: protocol.h, which declares \<open>JEUX_PACKET_HEADER\<close> and the
  packet type codes, is not among the sources. The specification lists the header
  fields: \<open>type\<close>, \<open>id\<close> and \<open>role\<close> of 8 bits each, \<open>size\<close> of 16 bits, and two
  time stamps. The types are named as client.c and server.c name them; the time
  stamps are left out.
  The \<open>size\<close> field holds the payload length; \<open>htons\<close> and \<open>ntohs\<close> only change
  its byte order, so the model keeps the number.
\<close>

datatype pkt_type =
  JEUX_LOGIN_PKT | JEUX_USERS_PKT | JEUX_INVITE_PKT | JEUX_REVOKE_PKT
  | JEUX_ACCEPT_PKT | JEUX_DECLINE_PKT | JEUX_MOVE_PKT | JEUX_RESIGN_PKT
  | JEUX_ACK_PKT | JEUX_NACK_PKT | JEUX_INVITED_PKT | JEUX_REVOKED_PKT
  | JEUX_ACCEPTED_PKT | JEUX_DECLINED_PKT | JEUX_MOVED_PKT | JEUX_RESIGNED_PKT
  | JEUX_ENDED_PKT

record header =
  ptype :: pkt_type
  pid :: "8 word"
  prole :: "8 word"
  psize :: "16 word"

section \<open>Clients, invitations and players (client.c, invitation.c, player.c)\<close>

text \<open>
  The objects live in a store: a \<open>CLIENT *\<close>, an \<open>INVITATION *\<close> and a \<open>PLAYER *\<close>
  are indices into it, and a null pointer is \<open>None\<close>. The game of an invitation is
  referenced by that invitation only and is kept inside it. Reference counts,
  the freeing of storage and the semaphores of the structs are not part of the
  model: the operations run one at a time.
  The invitation list of a client is the array \<open>invlist\<close>; its length is
  \<open>invlength\<close>, and the empty list stands for the null array of a new client.
  The store also holds the environment of the network: \<open>up fd\<close> says whether a
  write to descriptor \<open>fd\<close> succeeds, and \<open>wire\<close> lists the packets written so
  far, each with its descriptor, its header and the payload bytes that followed.
\<close>

datatype INVITATION_STATE = INV_OPEN_STATE | INV_ACCEPTED_STATE | INV_CLOSED_STATE

record invitation =
  inv_state :: INVITATION_STATE
  source :: nat
  target :: nat
  source_role :: int
  target_role :: int
  inv_game :: "game option"

record client =
  connfd :: int
  player :: "nat option"
  invlist :: "nat option list"

record player_rec =
  username :: string
  rating :: int

record world =
  clients :: "nat \<Rightarrow> client"
  invs :: "nat \<Rightarrow> invitation"
  players :: "nat \<Rightarrow> player_rec"
  up :: "int \<Rightarrow> bool"
  wire :: "(int \<times> header \<times> string) list"

text \<open>
  \<open>proto_send_packet\<close>: the header is written, then the payload when the size
  field is positive and the data pointer is not null. \<open>rio_writen\<close> is a library
  function; it returns \<open>-1\<close> when the descriptor cannot be written, and the model
  takes that from \<open>up\<close>.
\<close>

definition proto_send_packet :: "world \<Rightarrow> int \<Rightarrow> header \<Rightarrow> string option \<Rightarrow> int \<times> world" where
  "proto_send_packet w fd hdr datap =
    (if \<not> up w fd then (- 1, w)
     else
       (let payload_size = unat (psize hdr);
            payload = (case datap of None \<Rightarrow> []
                       | Some d \<Rightarrow> if payload_size > 0 then take payload_size d else [])
        in (0, w\<lparr>wire := wire w @ [(fd, hdr, payload)]\<rparr>)))"

definition client_send_packet :: "world \<Rightarrow> nat \<Rightarrow> header \<Rightarrow> string option \<Rightarrow> int \<times> world" where
  "client_send_packet w c hdr datap = proto_send_packet w (connfd (clients w c)) hdr datap"

text \<open>The first index of a list that holds a given entry: the search loops of client.c.\<close>

fun first_index :: "'a list \<Rightarrow> 'a \<Rightarrow> nat option" where
  "first_index [] v = None"
| "first_index (x # xs) v = (if x = v then Some 0 else map_option Suc (first_index xs v))"

definition set_invlist :: "world \<Rightarrow> nat \<Rightarrow> nat option list \<Rightarrow> world" where
  "set_invlist w c l = w\<lparr>clients := (clients w)(c := (clients w c)\<lparr>invlist := l\<rparr>)\<rparr>"

definition client_add_invitation :: "world \<Rightarrow> nat \<Rightarrow> nat \<Rightarrow> nat \<times> world" where
  "client_add_invitation w c iv =
    (let l0 = invlist (clients w c);
         l1 = (if length l0 = 0 then replicate 10 None else l0)
     in case first_index l1 None of
          Some i \<Rightarrow> (i, set_invlist w c (l1[i := Some iv]))
        | None \<Rightarrow> (length l1, set_invlist w c ((l1 @ replicate 10 None)[length l1 := Some iv])))"

definition client_remove_invitation :: "world \<Rightarrow> nat \<Rightarrow> nat \<Rightarrow> nat option \<times> world" where
  "client_remove_invitation w c iv =
    (case first_index (invlist (clients w c)) (Some iv) of
       Some i \<Rightarrow> (Some i, set_invlist w c ((invlist (clients w c))[i := None]))
     | None \<Rightarrow> (None, w))"

definition set_inv :: "world \<Rightarrow> nat \<Rightarrow> invitation \<Rightarrow> world" where
  "set_inv w iv x = w\<lparr>invs := (invs w)(iv := x)\<rparr>"

definition inv_accept :: "invitation \<Rightarrow> int \<times> invitation" where
  "inv_accept x =
    (if inv_state x \<noteq> INV_OPEN_STATE then (- 1, x)
     else (0, x\<lparr>inv_state := INV_ACCEPTED_STATE, inv_game := Some game_create\<rparr>))"

definition inv_close :: "invitation \<Rightarrow> int \<Rightarrow> int \<times> invitation" where
  "inv_close x r =
    (if inv_state x \<noteq> INV_OPEN_STATE \<and> inv_state x \<noteq> INV_ACCEPTED_STATE then (- 1, x)
     else if inv_game x \<noteq> None then
       (if r = NULL_ROLE then (- 1, x)
        else
          (case game_resign (inv_game x) r of (rc, g') \<Rightarrow>
             if rc \<noteq> 0 then (- 1, x\<lparr>inv_state := INV_CLOSED_STATE\<rparr>)
             else (0, x\<lparr>inv_state := INV_CLOSED_STATE, inv_game := g'\<rparr>)))
     else (0, x\<lparr>inv_state := INV_CLOSED_STATE\<rparr>))"

text \<open>
  \<open>player_post_result\<close>. Ratings are C \<open>int\<close>s, unbounded integers here; the
  quotient \<open>(R2 - R1) / 400\<close> is C's integer division, which truncates, and its
  result is the exponent given to \<open>pow\<close>.
\<close>

definition player_post_result :: "world \<Rightarrow> nat option \<Rightarrow> nat option \<Rightarrow> int \<Rightarrow> world" where
  "player_post_result w player1 player2 result =
    (case player1 of None \<Rightarrow> w | Some p1 \<Rightarrow>
     (case player2 of None \<Rightarrow> w | Some p2 \<Rightarrow>
       if result \<noteq> 0 \<and> result \<noteq> 1 \<and> result \<noteq> 2 then w
       else
         (let S1 = (if result = 0 then 1 / 2 else if result = 1 then 1 else 0);
              S2 = (if result = 0 then 1 / 2 else if result = 1 then 0 else 1);
              R1 = rating (players w p1);
              R2 = rating (players w p2);
              E1 = ddiv (Finite 1) (dadd (Finite 1) (pow10 ((R2 - R1) sdiv 400)));
              E2 = ddiv (Finite 1) (dadd (Finite 1) (pow10 ((R1 - R2) sdiv 400)));
              R1' = R1 + to_int (dmul (Finite 32) (dsub (Finite S1) E1));
              R2' = R2 + to_int (dmul (Finite 32) (dsub (Finite S2) E2));
              w1 = w\<lparr>players := (players w)(p1 := (players w p1)\<lparr>rating := R1'\<rparr>)\<rparr>
          in w1\<lparr>players := (players w1)(p2 := (players w1 p2)\<lparr>rating := R2'\<rparr>)\<rparr>)))"

text \<open>
  A header as client.c fills it: the assignments convert the \<open>int\<close> index, role
  and length to the width of the field.
\<close>

definition mk_header :: "pkt_type \<Rightarrow> nat \<Rightarrow> int \<Rightarrow> nat \<Rightarrow> header" where
  "mk_header t i r n = \<lparr>ptype = t, pid = of_nat i, prole = of_int r, psize = of_nat n\<rparr>"

text \<open>
  The end of a game, written four times in client.c (twice in \<open>client_resign_game\<close>,
  twice in \<open>client_make_move\<close>) with the same steps: ENDED to the caller with the
  caller's id, ENDED to the opponent with the id held for the opponent, removal
  of the invitation from the caller's list and from the opponent's, and the
  posting of the result. The result is always posted with the player of the
  invitation's target first, the player of its source second, and the winner
  that the game reports.
\<close>

definition end_game ::
  "world \<Rightarrow> nat \<Rightarrow> nat \<Rightarrow> nat \<Rightarrow> nat \<Rightarrow> int \<Rightarrow> nat \<Rightarrow> game \<Rightarrow> int \<times> world" where
  "end_game w c cid opp oppid r iv g =
    (case client_send_packet w c (mk_header JEUX_ENDED_PKT cid r 0) None of (rc1, w1) \<Rightarrow>
     if rc1 = - 1 then (- 1, w1)
     else
      (case client_send_packet w1 opp (mk_header JEUX_ENDED_PKT oppid r 0) None of (rc2, w2) \<Rightarrow>
       if rc2 = - 1 then (- 1, w2)
       else
        (case client_remove_invitation w2 c iv of
           (None, w3) \<Rightarrow> (- 1, w3)
         | (Some sourceid, w3) \<Rightarrow>
          (case client_remove_invitation w3 opp iv of
             (None, w4) \<Rightarrow> (- 1, w4)
           | (Some targetid, w4) \<Rightarrow>
              (0, player_post_result w4
                    (player (clients w4 (target (invs w4 iv))))
                    (player (clients w4 (source (invs w4 iv))))
                    (game_get_winner g))))))"

text \<open>
  \<open>client_make_invitation\<close>. \<open>inv_create\<close> allocates the invitation; \<open>iv\<close> is the
  address it returns, a place of the store that is not in use. With a client and
  an invitation that are not null, \<open>client_add_invitation\<close> always returns an
  index, so the two tests of its result against \<open>-1\<close> have no branch here. The
  name sent is that of the source's player; the service loop calls the function
  for a source that is logged in, and a source without a player, whose name the
  C code would read through a null pointer, gets the empty name.
\<close>

definition client_make_invitation ::
  "world \<Rightarrow> nat \<Rightarrow> nat \<Rightarrow> int \<Rightarrow> int \<Rightarrow> nat \<Rightarrow> int \<times> world" where
  "client_make_invitation w src tgt source_role' target_role' iv =
    (let w0 = set_inv w iv \<lparr>inv_state = INV_OPEN_STATE, source = src, target = tgt,
                 source_role = source_role', target_role = target_role', inv_game = None\<rparr>
     in case client_add_invitation w0 src iv of (sourceid, w1) \<Rightarrow>
        (case client_add_invitation w1 tgt iv of (targetid, w2) \<Rightarrow>
          (let name = (case player (clients w2 src) of None \<Rightarrow> []
                       | Some p \<Rightarrow> username (players w2 p))
           in case client_send_packet w2 tgt
                     (mk_header JEUX_INVITED_PKT targetid target_role' (strlen name)) (Some name) of
                (i, w3) \<Rightarrow> if i = - 1 then (- 1, w3) else (int sourceid, w3))))"

definition client_revoke_invitation :: "world \<Rightarrow> nat \<Rightarrow> nat \<Rightarrow> int \<times> world" where
  "client_revoke_invitation w c inv_id =
    (if inv_id \<ge> length (invlist (clients w c)) then (- 1, w)
     else
      (case invlist (clients w c) ! inv_id of None \<Rightarrow> (- 1, w) | Some iv \<Rightarrow>
        if c \<noteq> source (invs w iv) then (- 1, w)
        else if inv_game (invs w iv) \<noteq> None then (- 1, w)
        else
         (case client_remove_invitation w c iv of
            (None, w1) \<Rightarrow> (- 1, w1)
          | (Some sourceid, w1) \<Rightarrow>
           (case client_remove_invitation w1 (target (invs w1 iv)) iv of
              (None, w2) \<Rightarrow> (- 1, w2)
            | (Some targetid, w2) \<Rightarrow>
               client_send_packet w2 (target (invs w2 iv))
                 (mk_header JEUX_REVOKED_PKT targetid 0 0) None))))"

text \<open>
  \<open>client_accept_invitation\<close> returns the return code, the store, and the string
  it stores through \<open>strp\<close> (\<open>None\<close> for the null pointer, and also where the
  function returns before it assigns \<open>*strp\<close>).
\<close>

definition client_accept_invitation :: "world \<Rightarrow> nat \<Rightarrow> nat \<Rightarrow> int \<times> world \<times> string option" where
  "client_accept_invitation w c inv_id =
    (if inv_id \<ge> length (invlist (clients w c)) then (- 1, w, None)
     else
      (case invlist (clients w c) ! inv_id of None \<Rightarrow> (- 1, w, None) | Some iv \<Rightarrow>
        if c \<noteq> target (invs w iv) then (- 1, w, None)
        else if inv_game (invs w iv) \<noteq> None then (- 1, w, None)
        else
         (case first_index (invlist (clients w (source (invs w iv)))) (Some iv) of
            None \<Rightarrow> (- 1, w, None)
          | Some index \<Rightarrow>
           (case inv_accept (invs w iv) of (rc, x) \<Rightarrow>
             if rc = - 1 then (- 1, w, None)
             else
              (let w1 = set_inv w iv x in
               if source_role x = 1 then
                 (case game_unparse_state (inv_game x) of
                    None \<Rightarrow> (- 1, w1, None)
                  | Some state \<Rightarrow>
                   (case client_send_packet w1 (source x)
                           (mk_header JEUX_ACCEPTED_PKT index 0 (strlen state)) (Some state) of
                      (rc1, w2) \<Rightarrow>
                        if rc1 = - 1 then (- 1, w2, None) else (0, w2, None)))
               else
                 (case client_send_packet w1 (source x)
                         (mk_header JEUX_ACCEPTED_PKT index 0 0) None of
                    (rc1, w2) \<Rightarrow>
                      if rc1 = - 1 then (- 1, w2, None)
                      else (0, w2, game_unparse_state (inv_game x))))))))"

text \<open>
  \<open>client_resign_game\<close>. When the caller is the source, the block-local \<open>targetid\<close>
  holds the index found in the target's list; when the caller is the target, the
  block-local \<open>sourceid\<close> holds the index found in the source's list.
\<close>

definition client_resign_game :: "world \<Rightarrow> nat \<Rightarrow> nat \<Rightarrow> int \<times> world" where
  "client_resign_game w c inv_id =
    (if inv_id \<ge> length (invlist (clients w c)) then (- 1, w)
     else
      (case invlist (clients w c) ! inv_id of None \<Rightarrow> (- 1, w) | Some iv \<Rightarrow>
        if inv_game (invs w iv) = None then (- 1, w)
        else if c = source (invs w iv) then
         (case first_index (invlist (clients w (target (invs w iv)))) (Some iv) of
            None \<Rightarrow> (- 1, w)
          | Some targetid \<Rightarrow>
           (case inv_close (invs w iv) (source_role (invs w iv)) of (i, x) \<Rightarrow>
             (let w1 = set_inv w iv x in
              if i = - 1 then (- 1, w1)
              else
               (case client_send_packet w1 (target x)
                       (mk_header JEUX_RESIGNED_PKT targetid 0 0) None of (rc, w2) \<Rightarrow>
                 if rc = - 1 then (- 1, w2)
                 else
                  (case inv_game x of None \<Rightarrow> (0, w2) | Some g \<Rightarrow>
                    if game_is_over g \<noteq> 0
                    then end_game w2 c inv_id (target x) targetid (target_role x) iv g
                    else (0, w2))))))
        else
         (case first_index (invlist (clients w (source (invs w iv)))) (Some iv) of
            None \<Rightarrow> (- 1, w)
          | Some sourceid \<Rightarrow>
           (case inv_close (invs w iv) (target_role (invs w iv)) of (i, x) \<Rightarrow>
             (let w1 = set_inv w iv x in
              if i = - 1 then (- 1, w1)
              else
               (case client_send_packet w1 (source x)
                       (mk_header JEUX_RESIGNED_PKT sourceid 0 0) None of (rc, w2) \<Rightarrow>
                 if rc = - 1 then (- 1, w2)
                 else
                  (case inv_game x of None \<Rightarrow> (0, w2) | Some g \<Rightarrow>
                    if game_is_over g \<noteq> 0
                    then end_game w2 c inv_id (source x) sourceid (source_role x) iv g
                    else (0, w2))))))))"

text \<open>
  \<open>client_make_move\<close>. The function declares \<open>sourceid = 0\<close> and \<open>targetid = 0\<close>.
  When the caller is the source, the search of the target's list stores the index
  it finds in \<open>targetid\<close>, and the MOVED and ENDED packets for the target carry
  \<open>targetid\<close>. When the caller is the target, the search of the source's list
  stores the index it finds in \<open>targetid\<close> again, and the MOVED and ENDED packets
  for the source carry \<open>sourceid\<close>, which still holds 0.
  \<open>state\<close> is the string that \<open>game_unparse_state\<close> returns for the game, which
  is not null at that point.
\<close>

definition client_make_move :: "world \<Rightarrow> nat \<Rightarrow> nat \<Rightarrow> string \<Rightarrow> int \<times> world" where
  "client_make_move w c inv_id move =
    (if inv_id \<ge> length (invlist (clients w c)) then (- 1, w)
     else
      (case invlist (clients w c) ! inv_id of None \<Rightarrow> (- 1, w) | Some iv \<Rightarrow>
       (case inv_game (invs w iv) of None \<Rightarrow> (- 1, w) | Some game \<Rightarrow>
        if c = source (invs w iv) then
         (case first_index (invlist (clients w (target (invs w iv)))) (Some iv) of
            None \<Rightarrow> (- 1, w)
          | Some targetid \<Rightarrow>
           (case game_parse_move (Some game) (source_role (invs w iv)) (Some move) of
              None \<Rightarrow> (- 1, w)
            | Some pmove \<Rightarrow>
             (case game_apply_move (Some game) (Some pmove) of
                (rc, None) \<Rightarrow> (- 1, w)
              | (rc, Some game') \<Rightarrow>
                if rc = - 1 then (- 1, w)
                else
                 (let x = (invs w iv)\<lparr>inv_game := Some game'\<rparr>;
                      w1 = set_inv w iv x;
                      state = fill_string (board game') (nextmover game')
                  in case client_send_packet w1 (target x)
                            (mk_header JEUX_MOVED_PKT targetid 0 (strlen state)) (Some state) of
                       (rc1, w2) \<Rightarrow>
                         if rc1 = - 1 then (- 1, w2)
                         else if game_is_over game' \<noteq> 0
                         then end_game w2 c inv_id (target x) targetid
                                (game_get_winner game') iv game'
                         else (0, w2)))))
        else
         (case first_index (invlist (clients w (source (invs w iv)))) (Some iv) of
            None \<Rightarrow> (- 1, w)
          | Some i \<Rightarrow>
           (let targetid = i; sourceid = (0::nat) in
            case game_parse_move (Some game) (target_role (invs w iv)) (Some move) of
              None \<Rightarrow> (- 1, w)
            | Some pmove \<Rightarrow>
             (case game_apply_move (Some game) (Some pmove) of
                (rc, None) \<Rightarrow> (- 1, w)
              | (rc, Some game') \<Rightarrow>
                if rc = - 1 then (- 1, w)
                else
                 (let x = (invs w iv)\<lparr>inv_game := Some game'\<rparr>;
                      w1 = set_inv w iv x;
                      state = fill_string (board game') (nextmover game')
                  in case client_send_packet w1 (source x)
                            (mk_header JEUX_MOVED_PKT sourceid 0 (strlen state)) (Some state) of
                       (rc1, w2) \<Rightarrow>
                         if rc1 = - 1 then (- 1, w2)
                         else if game_is_over game' \<noteq> 0
                         then end_game w2 c inv_id (source x) sourceid
                                (game_get_winner game') iv game'
                         else (0, w2))))))))"

text \<open>
  The INVITE case of the service loop (server.c) gives the source the role that
  the packet does not name: role 2 when the packet's role is 1, role 1 otherwise.
  The pair is (source role, target role), the arguments it passes on to
  \<open>client_make_invitation\<close>.
\<close>

definition invite_roles :: "8 word \<Rightarrow> int \<times> int" where
  "invite_roles r = (if r = 1 then (2, uint r) else (1, uint r))"

section \<open>The client registry (client_registry.c)\<close>

text \<open>
  A semaphore is its counter. \<open>P\<close> on a positive counter takes one unit; on a zero
  counter the caller cannot go on, which is \<open>None\<close>. \<open>V\<close> adds one unit.
  The registry is the struct of client_registry.c without its mutex: the array
  \<open>buf\<close> of \<open>MAX_CLIENTS\<close> client pointers, the count, and the semaphore \<open>empty\<close>.
  \<open>MAX_CLIENTS\<close> is declared in client_registry.h, which is not among the sources;
  it is the length of \<open>buf\<close>, given to \<open>creg_init\<close>.
  An operation that gets past its semaphores returns its C result and the
  registry it leaves; one that stops at a semaphore returns \<open>None\<close>.
\<close>

definition sem_P :: "nat \<Rightarrow> nat option" where
  "sem_P s = (if s = 0 then None else Some (s - 1))"

definition sem_V :: "nat \<Rightarrow> nat" where
  "sem_V s = s + 1"

record client_registry =
  buf :: "nat option list"
  count :: int
  empty :: nat

definition creg_init :: "nat \<Rightarrow> client_registry" where
  "creg_init MAX_CLIENTS = \<lparr>buf = replicate MAX_CLIENTS None, count = 0, empty = 1\<rparr>"

text \<open>
  \<open>creg_register\<close>: \<open>cp\<close> is the client that \<open>client_create\<close> has just made. The
  result is the client pointer, or \<open>None\<close> for the null pointer when no slot is
  free.
\<close>

definition creg_register :: "client_registry \<Rightarrow> nat \<Rightarrow> (nat option \<times> client_registry) option" where
  "creg_register cr cp =
    (case first_index (buf cr) None of
       None \<Rightarrow> Some (None, cr)
     | Some i \<Rightarrow>
        if count cr = 0 then
          (case sem_P (empty cr) of
             None \<Rightarrow> None
           | Some e \<Rightarrow> Some (Some cp, cr\<lparr>buf := (buf cr)[i := Some cp], count := count cr + 1, empty := e\<rparr>))
        else Some (Some cp, cr\<lparr>buf := (buf cr)[i := Some cp], count := count cr + 1\<rparr>))"

definition creg_unregister :: "client_registry \<Rightarrow> nat \<Rightarrow> int \<times> client_registry" where
  "creg_unregister cr c =
    (case first_index (buf cr) (Some c) of
       None \<Rightarrow> (- 1, cr)
     | Some i \<Rightarrow>
        (let cr1 = cr\<lparr>buf := (buf cr)[i := None], count := count cr - 1\<rparr>
         in if count cr1 = 0 then (0, cr1\<lparr>empty := sem_V (empty cr1)\<rparr>) else (0, cr1)))"

definition creg_wait_for_empty :: "client_registry \<Rightarrow> client_registry option" where
  "creg_wait_for_empty cr =
    (case sem_P (empty cr) of None \<Rightarrow> None | Some e \<Rightarrow> Some (cr\<lparr>empty := e\<rparr>))"

section \<open>Receiving packets and the service loop (protocol.c, server.c)\<close>

text \<open>
  The input side of a connection is the list of bytes that will still arrive
  before the end of the stream, and a flag that says that reading fails.
  \<open>rio_readn\<close> belongs to the CS:APP library (csapp.c), which is not among the
  sources, so \<open>proto_recv_packet\<close> takes it as a parameter: a function from the
  connection and the number of bytes wanted to its return value, the bytes it
  stored at the start of the buffer, and the connection afterwards.
  \<open>rio_readn_short\<close> is the function of the library, by its contract: \<open>-1\<close> on
  a read error, otherwise the number of bytes transferred, which is short only
  at the end of the stream and 0 when the stream has ended already.
\<close>

record conn =
  pending :: "8 word list"
  broken :: bool

type_synonym reader = "conn \<Rightarrow> nat \<Rightarrow> int \<times> 8 word list \<times> conn"

definition rio_readn_short :: reader where
  "rio_readn_short c n =
    (if broken c then (- 1, [], c)
     else (int (min n (length (pending c))), take n (pending c),
           c\<lparr>pending := drop n (pending c)\<rparr>))"

text \<open>
  Modelled from the spec: the layout of \<open>JEUX_PACKET_HEADER\<close> (protocol.h). The
  header is a record of 16 bytes; bytes 4 and 5 are the \<open>size\<close> field in network
  byte order, which \<open>ntohs\<close> reads with the first byte as the high one.
\<close>

definition ntohs_size :: "8 word list \<Rightarrow> nat" where
  "ntohs_size hdr = 256 * unat (hdr ! 4) + unat (hdr ! 5)"

text \<open>
  \<open>proto_recv_packet\<close> returns its return code, the connection, the caller's header
  buffer (the bytes read overwrite its start, the rest keeps what it held),
  and the payload pointer (the bytes read into the new buffer; \<open>None\<close> for the
  null pointer).
\<close>

definition proto_recv_packet ::
  "reader \<Rightarrow> conn \<Rightarrow> 8 word list \<Rightarrow> int \<times> conn \<times> 8 word list \<times> 8 word list option" where
  "proto_recv_packet rio_readn c hdr =
    (case rio_readn c 16 of (n, got, c1) \<Rightarrow>
      (let hdr1 = got @ drop (length got) hdr in
       if n = - 1 then (- 1, c1, hdr1, None)
       else
        (let header_size = ntohs_size hdr1 in
         if header_size \<noteq> 0 then
           (case rio_readn c1 header_size of (n2, payload, c2) \<Rightarrow>
             if n2 = - 1 then (- 1, c2, hdr1, None)
             else (0, c2, hdr1, Some payload))
         else (0, c1, hdr1, None))))"

text \<open>
  The service loop of \<open>jeux_client_service\<close>:
  \<open>while(!(n = proto_recv_packet(connfd, &header, &payload))) { ... }\<close>.
  The body, which dispatches on the packet type, writes answers and may overwrite
  \<open>header\<close>, is the parameter \<open>body\<close>; it does not read from the connection. The
  loop may run forever, so the function counts its iterations down from \<open>fuel\<close>:
  \<open>None\<close> says that the loop is still running when the fuel is used up,
  \<open>Some\<close> gives the connection and the state with which the loop is left.
\<close>

fun service_loop ::
  "nat \<Rightarrow> reader \<Rightarrow> (8 word list \<Rightarrow> 8 word list option \<Rightarrow> 's \<Rightarrow> 8 word list \<times> 's)
     \<Rightarrow> conn \<Rightarrow> 8 word list \<Rightarrow> 's \<Rightarrow> (conn \<times> 's) option" where
  "service_loop 0 rio_readn body c header st = None"
| "service_loop (Suc fuel) rio_readn body c header st =
    (case proto_recv_packet rio_readn c header of (n, c1, header1, payload) \<Rightarrow>
      if n = 0 then
        (case body header1 payload st of (header2, st2) \<Rightarrow>
           service_loop fuel rio_readn body c1 header2 st2)
      else Some (c1, st))"

section \<open>Start-up (main.c)\<close>

text \<open>
  \<open>main\<close> up to the point where it opens the listening socket. The result is the
  exit status when the process exits before that, or \<open>Listening p\<close> when it
  reaches \<open>Open_listenfd(p)\<close>. \<open>sigaction_ok\<close> says whether installing the SIGHUP
  handler succeeds. The handler calls \<open>terminate(EXIT_SUCCESS)\<close>, which ends in
  \<open>exit(status)\<close>.
\<close>

datatype outcome = Exited int | Listening string

definition EXIT_SUCCESS :: int where
  "EXIT_SUCCESS = 0"

definition EXIT_FAILURE :: int where
  "EXIT_FAILURE = 1"

function port_search :: "string list \<Rightarrow> nat \<Rightarrow> string option" where
  "port_search argv index =
    (if index < length argv then
       (if argv ! index = ''-p'' \<and> index < length argv - 1 then Some (argv ! (index + 1))
        else port_search argv (index + 1))
     else None)"
  by pat_completeness auto
termination
  by (relation "measure (\<lambda>(argv, index). length argv - index)") auto

definition main :: "string list \<Rightarrow> bool \<Rightarrow> outcome" where
  "main argv sigaction_ok =
    (if length argv < 3 then Exited 0
     else
      (case port_search argv 1 of
         None \<Rightarrow> Exited 0
       | Some port_number \<Rightarrow>
          if \<not> sigaction_ok then Exited EXIT_FAILURE
          else Listening (argv ! 2)))"

definition sighup :: "outcome \<Rightarrow> outcome" where
  "sighup r = (case r of Listening p \<Rightarrow> Exited EXIT_SUCCESS | Exited n \<Rightarrow> Exited n)"

section \<open>Worlds for the worked examples\<close>

text \<open>
  \<open>lobby\<close>: three connected clients, logged in as alice, bob and carol (clients
  and players 0, 1 and 2, descriptors 4, 5 and 6), every rating 1500, no
  invitation, every descriptor writable, nothing written yet.
  \<open>slots\<close> pads a list of entries to the ten slots that \<open>client_add_invitation\<close>
  allocates; \<open>offer\<close> is an invitation as \<open>inv_create\<close> makes it, \<open>playing\<close>
  one that has been accepted, with its game.
  \<open>match_world x\<close>: alice and bob hold the invitation \<open>x\<close>, number 0, each in
  slot 0.
\<close>

definition no_invitation :: invitation where
  "no_invitation = \<lparr>inv_state = INV_CLOSED_STATE, source = 0, target = 0,
     source_role = 0, target_role = 0, inv_game = None\<rparr>"

definition lobby :: world where
  "lobby =
    \<lparr>clients = (\<lambda>n. if n = 0 then \<lparr>connfd = 4, player = Some 0, invlist = []\<rparr>
                     else if n = 1 then \<lparr>connfd = 5, player = Some 1, invlist = []\<rparr>
                     else \<lparr>connfd = 6, player = Some 2, invlist = []\<rparr>),
     invs = (\<lambda>n. no_invitation),
     players = (\<lambda>n. if n = 0 then \<lparr>username = ''alice'', rating = 1500\<rparr>
                     else if n = 1 then \<lparr>username = ''bob'', rating = 1500\<rparr>
                     else \<lparr>username = ''carol'', rating = 1500\<rparr>),
     up = (\<lambda>fd. True),
     wire = []\<rparr>"

definition slots :: "nat option list \<Rightarrow> nat option list" where
  "slots l = take 10 (l @ [None, None, None, None, None, None, None, None, None, None])"

definition offer :: "nat \<Rightarrow> nat \<Rightarrow> int \<Rightarrow> int \<Rightarrow> invitation" where
  "offer s t sr tr = \<lparr>inv_state = INV_OPEN_STATE, source = s, target = t,
     source_role = sr, target_role = tr, inv_game = None\<rparr>"

definition playing :: "nat \<Rightarrow> nat \<Rightarrow> int \<Rightarrow> int \<Rightarrow> int \<Rightarrow> int list \<Rightarrow> invitation" where
  "playing s t sr tr nm b = \<lparr>inv_state = INV_ACCEPTED_STATE, source = s, target = t,
     source_role = sr, target_role = tr,
     inv_game = Some \<lparr>winner = - 1, nextmover = nm, board = b\<rparr>\<rparr>"

definition match_world :: "invitation \<Rightarrow> world" where
  "match_world x =
    set_inv (set_invlist (set_invlist lobby 0 (slots [Some 0])) 1 (slots [Some 0])) 0 x"

text \<open>
  \<open>second_match\<close>: alice has first invited carol (invitation 7, slot 0 of both)
  and then bob (invitation 0, slot 1 of alice, slot 0 of bob); bob, who plays
  first, has accepted.
\<close>

definition second_match :: world where
  "second_match =
    set_inv
      (set_inv
        (set_invlist
          (set_invlist (set_invlist lobby 0 (slots [Some 7, Some 0])) 1 (slots [Some 0]))
          2 (slots [Some 7]))
        7 (offer 0 2 1 2))
      0 (playing 0 1 2 1 1 [0, 0, 0, 0, 0, 0, 0, 0, 0])"

text \<open>\<open>rated r1 r2\<close>: the lobby with alice rated \<open>r1\<close> and bob rated \<open>r2\<close>.\<close>

definition rated :: "int \<Rightarrow> int \<Rightarrow> world" where
  "rated r1 r2 =
    lobby\<lparr>players := (players lobby)
             (0 := \<lparr>username = ''alice'', rating = r1\<rparr>,
              1 := \<lparr>username = ''bob'', rating = r2\<rparr>)\<rparr>"

text \<open>\<open>unplug w fd\<close>: the world \<open>w\<close> in which descriptor \<open>fd\<close> can no longer be written.\<close>

definition unplug :: "world \<Rightarrow> int \<Rightarrow> world" where
  "unplug w fd = w\<lparr>up := (up w)(fd := False)\<rparr>"

text \<open>
  \<open>play w ms\<close>: the MOVE requests \<open>ms\<close>, each with its client, its invitation id
  and its move, handled one after the other as the service loop does, by a call
  of \<open>client_make_move\<close>; the result is the world they lead to, if every one of
  them is accepted. \<open>silent w\<close> is \<open>w\<close> once the packets written so far have been
  delivered.
\<close>

fun play :: "world \<Rightarrow> (nat \<times> nat \<times> string) list \<Rightarrow> world option" where
  "play w [] = Some w"
| "play w ((c, inv_id, move) # ms) =
    (case client_make_move w c inv_id move of (rc, w') \<Rightarrow> if rc = 0 then play w' ms else None)"

definition silent :: "world \<Rightarrow> world" where
  "silent w = w\<lparr>wire := []\<rparr>"

text \<open>The description of a new game, which \<open>game_unparse_state\<close> renders after \<open>game_create\<close>.\<close>

definition initial_state :: string where
  "initial_state = fill_string (board game_create) (nextmover game_create)"

text \<open>
  What the list operations of client.c maintain for an invitation between two
  clients: it is open exactly as long as it has no game, its source and its target
  are different clients, and each of them lists it once.
\<close>

definition well_listed :: "world \<Rightarrow> nat \<Rightarrow> bool" where
  "well_listed w iv =
    ((inv_state (invs w iv) = INV_OPEN_STATE) = (inv_game (invs w iv) = None)
     \<and> source (invs w iv) \<noteq> target (invs w iv)
     \<and> count_list (invlist (clients w (source (invs w iv)))) (Some iv) = 1
     \<and> count_list (invlist (clients w (target (invs w iv)))) (Some iv) = 1)"

text \<open>
  The four reasons for which, by the specification, a revocation is refused: the
  id is out of range, the slot is empty, the caller is not the source, the
  invitation is not open.
\<close>

definition revoke_refused :: "world \<Rightarrow> nat \<Rightarrow> nat \<Rightarrow> bool" where
  "revoke_refused w c inv_id =
    (inv_id \<ge> length (invlist (clients w c))
     \<or> (case invlist (clients w c) ! inv_id of
           None \<Rightarrow> True
         | Some iv \<Rightarrow> c \<noteq> source (invs w iv) \<or> inv_state (invs w iv) \<noteq> INV_OPEN_STATE))"

text \<open>
  The registry as \<open>creg_register\<close> and \<open>creg_unregister\<close> keep it: the count is the
  number of occupied slots, and the semaphore \<open>empty\<close> holds one unit exactly when
  the count is 0.
\<close>

definition barrier_tracks_count :: "client_registry \<Rightarrow> bool" where
  "barrier_tracks_count cr =
    (count cr = int (length (filter (\<lambda>x. x \<noteq> None) (buf cr)))
     \<and> empty cr = (if count cr = 0 then 1 else 0))"

text \<open>
  Two connections on which nothing more arrives: one whose stream has ended, one
  on which reading fails.
\<close>

definition at_eof :: conn where
  "at_eof = \<lparr>pending = [], broken = False\<rparr>"

definition read_error :: conn where
  "read_error = \<lparr>pending = [], broken = True\<rparr>"

section \<open>Rounding to a double\<close>

lemma expo_unique:
  "0 < q \<Longrightarrow> 2 powi e \<le> q \<Longrightarrow> q < 2 powi (e + 1) \<Longrightarrow> \<bar>e\<bar> \<le> int n \<Longrightarrow> expo n q = e"
proof (induction n arbitrary: q e)
  case 0
  then have "e = 0" by simp
  then show ?case by simp
next
  case (Suc n)
  show ?case
  proof (cases "2 \<le> q")
    case True
    have epos: "1 \<le> e"
    proof (rule ccontr)
      assume "\<not> 1 \<le> e"
      then have "e + 1 \<le> 1" by simp
      then have "(2::rat) powi (e + 1) \<le> 2 powi 1"
        by (intro power_int_increasing) auto
      with Suc.prems True show False by simp
    qed
    have a: "2 powi (e - 1) \<le> q / 2"
      using Suc.prems(2) by (simp add: power_int_diff)
    have b: "q / 2 < 2 powi (e - 1 + 1)"
      using Suc.prems(3) by (simp add: power_int_add)
    have c: "\<bar>e - 1\<bar> \<le> int n" using Suc.prems(4) epos by simp
    have "expo n (q / 2) = e - 1"
      using Suc.IH [of "q / 2" "e - 1"] a b c Suc.prems(1) by simp
    then show ?thesis using True by simp
  next
    case False
    note nf = False
    show ?thesis
    proof (cases "q < 1")
      case True
      have eneg: "e \<le> - 1"
      proof (rule ccontr)
        assume "\<not> e \<le> - 1"
        then have "0 \<le> e" by simp
        then have "(2::rat) powi 0 \<le> 2 powi e"
          by (intro power_int_increasing) auto
        with Suc.prems True show False by simp
      qed
      have a: "2 powi (e + 1) \<le> q * 2"
        using Suc.prems(2) by (simp add: power_int_add)
      have b: "q * 2 < 2 powi (e + 1 + 1)"
        using Suc.prems(3) by (simp add: power_int_add)
      have c: "\<bar>e + 1\<bar> \<le> int n" using Suc.prems(4) eneg by simp
      have "expo n (q * 2) = e + 1"
        using Suc.IH [of "q * 2" "e + 1"] a b c Suc.prems(1) by simp
      then show ?thesis using True nf by simp
    next
      case False
      have "e = 0"
      proof (rule ccontr)
        assume ne: "e \<noteq> 0"
        show False
        proof (cases "e < 0")
          case True
          then have "e + 1 \<le> 0" by simp
          then have "(2::rat) powi (e + 1) \<le> 2 powi 0"
            by (intro power_int_increasing) auto
          with Suc.prems False show False by simp
        next
          case False
          with ne have "1 \<le> e" by simp
          then have "(2::rat) powi 1 \<le> 2 powi e"
            by (intro power_int_increasing) auto
          with Suc.prems nf show False by simp
        qed
      qed
      then show ?thesis using False nf by simp
    qed
  qed
qed

lemma rne_near: "\<bar>x - of_int n\<bar> < 1 / 2 \<Longrightarrow> rne x = n"
proof -
  assume a: "\<bar>x - of_int n\<bar> < 1 / 2"
  show ?thesis
  proof (cases "of_int n \<le> x")
    case True
    with a have "\<lfloor>x\<rfloor> = n" by (intro floor_unique) auto
    with a True show ?thesis by (auto simp: rne_def Let_def)
  next
    case False
    with a have f: "\<lfloor>x\<rfloor> = n - 1" by (intro floor_unique) auto
    with a False show ?thesis by (auto simp: rne_def Let_def)
  qed
qed

lemma rne_tie_even: "x = of_int n + 1 / 2 \<Longrightarrow> even n \<Longrightarrow> rne x = n"
proof -
  assume a: "x = of_int n + 1 / 2" and b: "even n"
  have "\<lfloor>x\<rfloor> = n" using a by (intro floor_unique) auto
  with a b show ?thesis by (auto simp: rne_def Let_def)
qed

lemma round_double_rne:
  assumes "q \<noteq> 0" and "2 powi e \<le> \<bar>q\<bar>" and "\<bar>q\<bar> < 2 powi (e + 1)"
    and "- 1022 \<le> e" and "e \<le> 1100"
    and "rne (q / 2 powi (e - 52)) = m"
    and "of_int m * 2 powi (e - 52) < (2::rat) ^ 1024"
  shows "round_double q = Finite (of_int m * 2 powi (e - 52))"
proof -
  have "expo 1100 \<bar>q\<bar> = e"
    using assms by (intro expo_unique) auto
  then show ?thesis
    using assms by (simp add: round_double_def Let_def)
qed

text \<open>Small dyadic numbers are doubles: rounding leaves them as they are.\<close>

lemma round_double_1: "round_double 1 = Finite 1"
proof -
  have "rne (1 / 2 powi (0 - 52)) = 2 ^ 52"
    by (rule rne_near) (simp add: power_int_minus)
  from round_double_rne [where e = 0 and q = 1, OF _ _ _ _ _ this]
  show ?thesis by (simp add: power_int_minus)
qed

lemma round_double_2: "round_double 2 = Finite 2"
proof -
  have "rne (2 / 2 powi (1 - 52)) = 2 ^ 52"
    by (rule rne_near) (simp add: power_int_minus)
  from round_double_rne [where e = 1 and q = 2, OF _ _ _ _ _ this]
  show ?thesis by (simp add: power_int_minus)
qed

lemma round_double_half: "round_double (1 / 2) = Finite (1 / 2)"
proof -
  have "rne ((1 / 2) / 2 powi (- 1 - 52)) = 2 ^ 52"
    by (rule rne_near) (simp add: power_int_minus)
  from round_double_rne [where e = "- 1" and q = "1 / 2", OF _ _ _ _ _ this]
  show ?thesis by (simp add: power_int_minus)
qed

lemma round_double_mhalf: "round_double (- (1 / 2)) = Finite (- (1 / 2))"
proof -
  have "rne ((- (1 / 2)) / 2 powi (- 1 - 52)) = - (2 ^ 52)"
    by (rule rne_near) (simp add: power_int_minus)
  from round_double_rne [where e = "- 1" and q = "- (1 / 2)", OF _ _ _ _ _ this]
  show ?thesis by (simp add: power_int_minus)
qed

lemma round_double_16: "round_double 16 = Finite 16"
proof -
  have "rne (16 / 2 powi (4 - 52)) = 2 ^ 52"
    by (rule rne_near) (simp add: power_int_minus)
  from round_double_rne [where e = 4 and q = 16, OF _ _ _ _ _ this]
  show ?thesis by (simp add: power_int_minus)
qed

lemma round_double_m16: "round_double (- 16) = Finite (- 16)"
proof -
  have "rne ((- 16) / 2 powi (4 - 52)) = - (2 ^ 52)"
    by (rule rne_near) (simp add: power_int_minus)
  from round_double_rne [where e = 4 and q = "- 16", OF _ _ _ _ _ this]
  show ?thesis by (simp add: power_int_minus)
qed

lemma round_double_0: "round_double 0 = Finite 0"
  by (simp add: round_double_def)

lemmas round_small = round_double_0 round_double_1 round_double_2 round_double_half round_double_mhalf
  round_double_16 round_double_m16

lemma elo_equal:
  "ddiv (Finite 1) (dadd (Finite 1) (pow10 0)) = Finite (1 / 2)"
  by (simp add: ddiv_def dadd_def pow10_def round_small)

lemma elo_steps:
  "to_int (dmul (Finite 32) (dsub (Finite 1) (Finite (1 / 2)))) = 16"
  "to_int (dmul (Finite 32) (dsub (Finite 0) (Finite (1 / 2)))) = - 16"
  "to_int (dmul (Finite 32) (dsub (Finite (1 / 2)) (Finite (1 / 2)))) = 0"
  by (simp_all add: dmul_def dsub_def to_int_def round_small)

lemma round_double_m1: "round_double (- 1) = Finite (- 1)"
proof -
  have "rne ((- 1) / 2 powi (0 - 52)) = - (2 ^ 52)"
    by (rule rne_near) (simp add: power_int_minus)
  from round_double_rne [where e = 0 and q = "- 1", OF _ _ _ _ _ this]
  show ?thesis by (simp add: power_int_minus)
qed

lemma round_double_m32: "round_double (- 32) = Finite (- 32)"
proof -
  have "rne ((- 32) / 2 powi (5 - 52)) = - (2 ^ 52)"
    by (rule rne_near) (simp add: power_int_minus)
  from round_double_rne [where e = 5 and q = "- 32", OF _ _ _ _ _ this]
  show ?thesis by (simp add: power_int_minus)
qed

text \<open>The roundings on the way to the expected scores at exponents 16 and -16.\<close>

lemma pow10_16: "pow10 16 = Finite 10000000000000000"
proof -
  have "rne (10000000000000000 / 2 powi (53 - 52)) = 5000000000000000"
    by (rule rne_near) simp
  from round_double_rne [where e = 53 and q = 10000000000000000, OF _ _ _ _ _ this]
  show ?thesis by (simp add: pow10_def)
qed

lemma round_1e16_plus_1: "round_double 10000000000000001 = Finite 10000000000000000"
proof -
  have "rne (10000000000000001 / 2 powi (53 - 52)) = 5000000000000000"
    by (rule rne_tie_even) simp_all
  from round_double_rne [where e = 53 and q = 10000000000000001, OF _ _ _ _ _ this]
  show ?thesis by simp
qed

lemma round_1e16_inverse:
  "round_double (1 / 10000000000000000) = Finite (8112963841460668 / 2 ^ 106)"
proof -
  have "rne ((1 / 10000000000000000) / 2 powi (- 54 - 52)) = 8112963841460668"
    by (rule rne_near) (simp add: power_int_minus)
  from round_double_rne [where e = "- 54" and q = "1 / 10000000000000000", OF _ _ _ _ _ this]
  show ?thesis by (simp add: power_int_minus)
qed

lemma pow10_m16: "pow10 (- 16) = Finite (8112963841460668 / 2 ^ 106)"
  using round_1e16_inverse by (simp add: pow10_def power_int_minus)

lemma round_below_1:
  "round_double (1 - 8112963841460668 / 2 ^ 106) = Finite (9007199254740991 / 2 ^ 53)"
proof -
  have "rne ((1 - 8112963841460668 / 2 ^ 106) / 2 powi (- 1 - 52)) = 9007199254740991"
    by (rule rne_near) (simp add: power_int_minus)
  from round_double_rne [where e = "- 1" and q = "1 - 8112963841460668 / 2 ^ 106", OF _ _ _ _ _ this]
  show ?thesis by (simp add: power_int_minus)
qed

lemma round_above_1: "round_double (1 + 8112963841460668 / 2 ^ 106) = Finite 1"
proof -
  have "rne ((1 + 8112963841460668 / 2 ^ 106) / 2 powi (0 - 52)) = 2 ^ 52"
    by (rule rne_near) (simp add: power_int_minus)
  from round_double_rne [where e = 0 and q = "1 + 8112963841460668 / 2 ^ 106", OF _ _ _ _ _ this]
  show ?thesis by (simp add: power_int_minus)
qed

lemma round_below_32:
  "round_double (32 * (9007199254740991 / 2 ^ 53)) = Finite (9007199254740991 / 2 ^ 48)"
proof -
  have "rne ((32 * (9007199254740991 / 2 ^ 53)) / 2 powi (4 - 52)) = 9007199254740991"
    by (rule rne_near) (simp add: power_int_minus)
  from round_double_rne [where e = 4 and q = "32 * (9007199254740991 / 2 ^ 53)", OF _ _ _ _ _ this]
  show ?thesis by (simp add: power_int_minus)
qed

lemma elo_gain_16: "to_int (dmul (Finite 32) (dsub (Finite 1)
    (ddiv (Finite 1) (dadd (Finite 1) (pow10 16))))) = 31"
proof -
  have a: "dadd (Finite 1) (pow10 16) = Finite 10000000000000000"
    using round_1e16_plus_1 by (simp add: pow10_16 dadd_def)
  have b: "ddiv (Finite 1) (Finite 10000000000000000) = Finite (8112963841460668 / 2 ^ 106)"
    using round_1e16_inverse by (simp add: ddiv_def)
  have c: "dsub (Finite 1) (Finite (8112963841460668 / 2 ^ 106)) = Finite (9007199254740991 / 2 ^ 53)"
    using round_below_1 by (simp add: dsub_def)
  have d: "dmul (Finite 32) (Finite (9007199254740991 / 2 ^ 53)) = Finite (9007199254740991 / 2 ^ 48)"
    using round_below_32 by (simp add: dmul_def)
  have e: "to_int (Finite (9007199254740991 / 2 ^ 48)) = 31"
    by (simp add: to_int_def floor_eq_iff)
  show ?thesis by (simp only: a b c d e)
qed

lemma elo_loss_16: "to_int (dmul (Finite 32) (dsub (Finite 0)
    (ddiv (Finite 1) (dadd (Finite 1) (pow10 (- 16)))))) = - 32"
proof -
  have a: "dadd (Finite 1) (pow10 (- 16)) = Finite 1"
    using round_above_1 by (simp add: pow10_m16 dadd_def)
  have b: "ddiv (Finite 1) (Finite 1) = Finite 1"
    by (simp add: ddiv_def round_double_1)
  have c: "dsub (Finite 0) (Finite 1) = Finite (- 1)"
    by (simp add: dsub_def round_double_m1)
  have d: "dmul (Finite 32) (Finite (- 1)) = Finite (- 32)"
    by (simp add: dmul_def round_double_m32)
  have e: "to_int (Finite (- 32)) = - 32"
    by (simp add: to_int_def)
  show ?thesis by (simp only: a b c d e)
qed


lemma sdiv_400_small: "\<bar>a\<bar> < 400 \<Longrightarrow> (a::int) sdiv 400 = 0"
  by (simp add: signed_divide_int_def)

section \<open>Posting a result\<close>

lemma player_post_result_wire [simp]: "wire (player_post_result w a b r) = wire w"
  by (simp add: player_post_result_def Let_def split: option.split)

lemma player_post_result_clients [simp]: "clients (player_post_result w a b r) = clients w"
  by (simp add: player_post_result_def Let_def split: option.split)

lemma player_post_result_invs [simp]: "invs (player_post_result w a b r) = invs w"
  by (simp add: player_post_result_def Let_def split: option.split)

text \<open>
  Ratings less than 400 apart: the exponent is 0, both expected scores are 1/2,
  and 16 points go from the loser to the winner (none on a draw).
\<close>

lemma player_post_result_near:
  assumes "\<bar>rating (players w p2) - rating (players w p1)\<bar> < 400"
    and "p1 \<noteq> p2" and "result = 0 \<or> result = 1 \<or> result = 2"
  shows "players (player_post_result w (Some p1) (Some p2) result) =
    (players w)
      (p1 := (players w p1)\<lparr>rating := rating (players w p1)
                + (if result = 0 then 0 else if result = 1 then 16 else - 16)\<rparr>,
       p2 := (players w p2)\<lparr>rating := rating (players w p2)
                - (if result = 0 then 0 else if result = 1 then 16 else - 16)\<rparr>)"
proof -
  have k1: "(rating (players w p2) - rating (players w p1)) sdiv 400 = 0"
    using assms(1) by (intro sdiv_400_small) simp
  have k2: "(rating (players w p1) - rating (players w p2)) sdiv 400 = 0"
    using assms(1) by (intro sdiv_400_small) simp
  show ?thesis
    using assms(2,3)
    by (auto simp: player_post_result_def Let_def k1 k2 elo_equal elo_steps)
qed

lemma player_post_result_near_conserves:
  assumes "\<bar>rating (players w p2) - rating (players w p1)\<bar> < 400"
    and "p1 \<noteq> p2" and "result = 0 \<or> result = 1 \<or> result = 2"
  shows "rating (players (player_post_result w (Some p1) (Some p2) result) p1)
       + rating (players (player_post_result w (Some p1) (Some p2) result) p2)
       = rating (players w p1) + rating (players w p2)"
  using assms(2) by (simp add: player_post_result_near [OF assms])

lemmas scene_defs = no_invitation_def lobby_def slots_def offer_def playing_def match_world_def
  second_match_def rated_def unplug_def set_inv_def set_invlist_def

lemmas move_defs = client_make_move_def game_parse_move_def game_apply_move_def atoi1_def
  NULL_ROLE_def check_def Let_def client_send_packet_def proto_send_packet_def mk_header_def
  game_is_over_def end_game_def client_remove_invitation_def game_get_winner_def
  fill_string_def role_to_xo_def strlen_def

section \<open>Results of finished games\<close>

lemmas resign_defs = client_resign_game_def inv_close_def game_resign_def
  FIRST_PLAYER_ROLE_def SECOND_PLAYER_ROLE_def

text \<open>
  Claim C2 says that the posted result gives score 1 to the player who won, and
  that from ratings 1500 and 1500 a win of the source, playing role 1, leaves
  the source at 1516 and the opponent at 1484. The code posts every result as
  \<open>player_post_result(target's player, source's player, winner's role)\<close>, and
  \<open>player_post_result\<close> reads its third argument as "1: the first player given
  won, 2: the second player given won". So a source who plays role 1 is rated as
  the loser when it wins. First conjunct: alice (source, role 1) and bob
  (target, role 2), both rated 1500; alice holds squares 1 and 2 and completes
  the top row with square 3; the game reports winner 1, and alice's rating
  becomes 1484, bob's 1516. Second conjunct: in a new game alice resigns; the
  game reports winner 2, and alice's rating becomes 1516, bob's 1484.
\<close>

theorem source_win_posted_as_target_win:
  "(case client_make_move (match_world (playing 0 1 1 2 1 [1, 1, 0, 2, 2, 0, 0, 0, 0])) 0 0 ''3'' of
      (rc, w) \<Rightarrow>
        rc = 0
        \<and> source_role (invs w 0) = 1
        \<and> inv_game (invs w 0)
            = Some \<lparr>winner = 1, nextmover = 2, board = [1, 1, 1, 2, 2, 0, 0, 0, 0]\<rparr>
        \<and> rating (players w 0) = 1484
        \<and> rating (players w 1) = 1516)
   \<and> (case client_resign_game (match_world (playing 0 1 1 2 1 [0, 0, 0, 0, 0, 0, 0, 0, 0])) 0 0 of
      (rc, w) \<Rightarrow>
        rc = 0
        \<and> inv_game (invs w 0)
            = Some \<lparr>winner = 2, nextmover = 1, board = [0, 0, 0, 0, 0, 0, 0, 0, 0]\<rparr>
        \<and> rating (players w 0) = 1516
        \<and> rating (players w 1) = 1484)"
proof (intro conjI)
  show "case client_make_move (match_world (playing 0 1 1 2 1 [1, 1, 0, 2, 2, 0, 0, 0, 0])) 0 0 ''3'' of
      (rc, w) \<Rightarrow>
        rc = 0
        \<and> source_role (invs w 0) = 1
        \<and> inv_game (invs w 0)
            = Some \<lparr>winner = 1, nextmover = 2, board = [1, 1, 1, 2, 2, 0, 0, 0, 0]\<rparr>
        \<and> rating (players w 0) = 1484
        \<and> rating (players w 1) = 1516"
    by (simp add: scene_defs move_defs player_post_result_near split: prod.splits option.splits)
  show "case client_resign_game (match_world (playing 0 1 1 2 1 [0, 0, 0, 0, 0, 0, 0, 0, 0])) 0 0 of
      (rc, w) \<Rightarrow>
        rc = 0
        \<and> inv_game (invs w 0)
            = Some \<lparr>winner = 2, nextmover = 1, board = [0, 0, 0, 0, 0, 0, 0, 0, 0]\<rparr>
        \<and> rating (players w 0) = 1516
        \<and> rating (players w 1) = 1484"
    by (simp add: scene_defs move_defs resign_defs player_post_result_near
        split: prod.splits option.splits)
qed

text \<open>
  Claim C4 says that the two rating changes of one posted result add up to exactly
  zero. With alice rated 1500 and bob rated 7900 the exponents are 16 and -16.
  For alice, who wins, \<open>1 + pow(10, 16)\<close> rounds to \<open>10 ^ 16\<close>, the expected score
  is the double next to \<open>10 ^ -16\<close>, \<open>1 - E1\<close> rounds to \<open>1 - 2 ^ -53\<close>, and
  32 times that is just below 32: the cast gives 31. For bob \<open>1 + pow(10, -16)\<close>
  rounds to 1, the expected score is 1, and the change is -32. Alice goes to 1531,
  bob to 7868: the changes add up to -1.
\<close>

theorem rating_points_lost_at_gap_6400:
  "rating (players (player_post_result (rated 1500 7900) (Some 0) (Some 1) 1) 0) = 1531
   \<and> rating (players (player_post_result (rated 1500 7900) (Some 0) (Some 1) 1) 1) = 7868"
  by (simp add: player_post_result_def Let_def scene_defs signed_divide_int_def
      elo_gain_16 elo_loss_16)

section \<open>Moves\<close>

text \<open>
  Claim C5 says that a move that completes three in a row ends the game with the
  mover as winner and that both ENDED packets carry that role, role 0 being kept
  for a draw. \<open>check\<close> tests for a full board before it looks at the lines, so a
  winning move onto the last free square is reported as a draw. Alice (source,
  role 1, X) holds squares 1, 3, 5 and 8, bob (O) holds 2, 4, 6 and 7; alice
  plays square 9 and completes the diagonal 1-5-9. The move is applied, the game
  is over with winner 0, and both ENDED packets carry role 0.
\<close>

theorem win_on_last_square_ended_as_draw:
  "(case client_make_move (match_world (playing 0 1 1 2 1 [1, 2, 1, 2, 1, 2, 2, 1, 0])) 0 0 ''9'' of
      (rc, w) \<Rightarrow>
        rc = 0
        \<and> inv_game (invs w 0)
            = Some \<lparr>winner = 0, nextmover = 2, board = [1, 2, 1, 2, 1, 2, 2, 1, 1]\<rparr>
        \<and> wire w =
            [(5, \<lparr>ptype = JEUX_MOVED_PKT, pid = 0, prole = 0, psize = 40\<rparr>,
              ''X|O|X'' @ [CHR 0x0A] @ ''-----'' @ [CHR 0x0A] @ ''O|X|O'' @ [CHR 0x0A]
              @ ''-----'' @ [CHR 0x0A] @ ''O|X|X'' @ [CHR 0x0A] @ ''O to move'' @ [CHR 0x0A]),
             (4, \<lparr>ptype = JEUX_ENDED_PKT, pid = 0, prole = 0, psize = 0\<rparr>, []),
             (5, \<lparr>ptype = JEUX_ENDED_PKT, pid = 0, prole = 0, psize = 0\<rparr>, [])])"
  by (simp add: scene_defs move_defs player_post_result_near split: prod.splits option.splits)

text \<open>
  Claim C6 says that the MOVED packet carries the opponent's own index for the
  invitation, whoever moves. When the target moves, \<open>client_make_move\<close> stores
  the index found in the source's list in \<open>targetid\<close> and sends \<open>sourceid\<close>, which
  is still 0. In \<open>second_match\<close> alice, the source, holds the invitation in her
  slot 1; bob, the target, moves to square 5; the MOVED packet written to
  alice's descriptor 4 carries id 0.
\<close>

theorem moved_to_source_carries_id_zero:
  "first_index (invlist (clients second_match 0)) (Some 0) = Some 1
   \<and> (case client_make_move second_match 1 0 ''5'' of
        (rc, w) \<Rightarrow>
          rc = 0
          \<and> wire w =
             [(4, \<lparr>ptype = JEUX_MOVED_PKT, pid = 0, prole = 0, psize = 40\<rparr>,
               '' | | '' @ [CHR 0x0A] @ ''-----'' @ [CHR 0x0A] @ '' |X| '' @ [CHR 0x0A]
               @ ''-----'' @ [CHR 0x0A] @ '' | | '' @ [CHR 0x0A] @ ''O to move'' @ [CHR 0x0A])])"
  by (simp add: scene_defs move_defs split: prod.splits option.splits)

section \<open>Accepting an invitation\<close>

lemma initial_state_eq:
  "initial_state = '' | | '' @ [CHR 0x0A] @ ''-----'' @ [CHR 0x0A] @ '' | | '' @ [CHR 0x0A]
     @ ''-----'' @ [CHR 0x0A] @ '' | | '' @ [CHR 0x0A] @ ''X to move'' @ [CHR 0x0A]"
  by (simp add: initial_state_def fill_string_def game_create_def role_to_xo_def eval_nat_numeral)

lemma initial_state_facts:
  "strlen initial_state = 40" "length initial_state = 40" "initial_state \<noteq> []"
  by (simp_all add: initial_state_eq strlen_def)

lemma game_unparse_initial: "game_unparse_state (Some game_create) = Some initial_state"
  by (simp add: game_unparse_state_def initial_state_def)

lemma accept_general:
  assumes ok: "client_accept_invitation w c inv_id = (0, w', strp)"
    and slot: "invlist (clients w c) ! inv_id = Some iv"
  shows "\<exists>index. first_index (invlist (clients w (source (invs w iv)))) (Some iv) = Some index
      \<and> wire w' = wire w @
          [(connfd (clients w (source (invs w iv))),
            \<lparr>ptype = JEUX_ACCEPTED_PKT, pid = of_nat index, prole = 0,
               psize = (if source_role (invs w iv) = 1 then 40 else 0)\<rparr>,
            if source_role (invs w iv) = 1 then initial_state else [])]
      \<and> strp = (if source_role (invs w iv) = 1 then None else Some initial_state)"
  using ok slot
  by (auto simp: client_accept_invitation_def inv_accept_def Let_def set_inv_def
      client_send_packet_def proto_send_packet_def mk_header_def game_unparse_initial
      initial_state_facts
      split: if_splits option.splits prod.splits)

lemma invite_roles_distinct:
  "invite_roles r = (sr, tr) \<Longrightarrow> tr = 1 \<or> tr = 2 \<Longrightarrow> sr \<noteq> tr \<and> (sr = 1 \<or> sr = 2)"
  using word_uint_eq_iff [of r 1]
  by (auto simp: invite_roles_def split: if_splits)

text \<open>
  Claim C7. Let a client accept successfully the invitation \<open>iv\<close> that it holds in
  slot \<open>inv_id\<close>, and let the roles of the invitation be those that the INVITE case
  of the service loop assigns (the only place that makes invitations), both in
  \<open>{1, 2}\<close>. Then the call writes one packet, to the descriptor of the source: an
  ACCEPTED packet whose payload is the description of the new game if and only if
  the source's role is FIRST_PLAYER, and empty otherwise; and the string stored
  through \<open>strp\<close> for the ACK is that description if and only if the target's role is
  FIRST_PLAYER, and the null pointer otherwise.
\<close>

theorem accepted_state_goes_to_first_mover:
  assumes ok: "client_accept_invitation w c inv_id = (0, w', strp)"
    and slot: "invlist (clients w c) ! inv_id = Some iv"
    and made: "invite_roles r = (source_role (invs w iv), target_role (invs w iv))"
    and sr: "source_role (invs w iv) = 1 \<or> source_role (invs w iv) = 2"
    and tr: "target_role (invs w iv) = 1 \<or> target_role (invs w iv) = 2"
  shows "\<exists>hdr payload.
      wire w' = wire w @ [(connfd (clients w (source (invs w iv))), hdr, payload)]
      \<and> ptype hdr = JEUX_ACCEPTED_PKT
      \<and> (payload = initial_state) = (source_role (invs w iv) = FIRST_PLAYER_ROLE)
      \<and> (payload = []) = (source_role (invs w iv) \<noteq> FIRST_PLAYER_ROLE)
      \<and> (strp = Some initial_state) = (target_role (invs w iv) = FIRST_PLAYER_ROLE)
      \<and> (strp = None) = (target_role (invs w iv) \<noteq> FIRST_PLAYER_ROLE)"
proof -
  from invite_roles_distinct [OF made tr]
  have ne: "source_role (invs w iv) \<noteq> target_role (invs w iv)" by simp
  from accept_general [OF ok slot] obtain index where
    w: "wire w' = wire w @
          [(connfd (clients w (source (invs w iv))),
            \<lparr>ptype = JEUX_ACCEPTED_PKT, pid = of_nat index, prole = 0,
               psize = (if source_role (invs w iv) = 1 then 40 else 0)\<rparr>,
            if source_role (invs w iv) = 1 then initial_state else [])]"
    and s: "strp = (if source_role (invs w iv) = 1 then None else Some initial_state)"
    by blast
  show ?thesis
  proof (intro exI conjI)
    show "wire w' = wire w @
          [(connfd (clients w (source (invs w iv))),
            \<lparr>ptype = JEUX_ACCEPTED_PKT, pid = of_nat index, prole = 0,
               psize = (if source_role (invs w iv) = 1 then 40 else 0)\<rparr>,
            if source_role (invs w iv) = 1 then initial_state else [])]"
      by (rule w)
  qed (use s sr tr ne initial_state_facts(3) in \<open>auto simp: FIRST_PLAYER_ROLE_def\<close>)
qed

lemmas accept_defs = client_accept_invitation_def inv_accept_def Let_def set_inv_def
  client_send_packet_def proto_send_packet_def mk_header_def game_unparse_initial
  initial_state_facts

theorem accepted_state_goes_to_first_mover_witness:
  "fst (client_accept_invitation (match_world (offer 0 1 2 1)) 1 0) = 0
   \<and> invite_roles 1 = (2, 1)
   \<and> (\<exists>hdr. wire (fst (snd (client_accept_invitation (match_world (offer 0 1 2 1)) 1 0)))
              = [(4, hdr, [])] \<and> ptype hdr = JEUX_ACCEPTED_PKT)
   \<and> snd (snd (client_accept_invitation (match_world (offer 0 1 2 1)) 1 0)) = Some initial_state"
proof -
  let ?W = "match_world (offer 0 1 2 1)"
  let ?r = "client_accept_invitation ?W 1 0"
  have rc: "fst ?r = 0"
    by (simp add: scene_defs accept_defs split: prod.splits)
  then have ok: "?r = (0, fst (snd ?r), snd (snd ?r))"
    by (metis prod.collapse)
  have slot: "invlist (clients ?W 1) ! 0 = Some 0" by (simp add: scene_defs)
  have made: "invite_roles 1 = (source_role (invs ?W 0), target_role (invs ?W 0))"
    by (simp add: scene_defs invite_roles_def)
  have sr: "source_role (invs ?W 0) = 1 \<or> source_role (invs ?W 0) = 2" by (simp add: scene_defs)
  have tr: "target_role (invs ?W 0) = 1 \<or> target_role (invs ?W 0) = 2" by (simp add: scene_defs)
  from accepted_state_goes_to_first_mover [OF ok slot made sr tr]
  obtain hdr payload where
    a: "wire (fst (snd ?r)) = wire ?W @ [(connfd (clients ?W (source (invs ?W 0))), hdr, payload)]"
    and b: "ptype hdr = JEUX_ACCEPTED_PKT"
    and c: "(payload = []) = (source_role (invs ?W 0) \<noteq> FIRST_PLAYER_ROLE)"
    and d: "(snd (snd ?r) = Some initial_state) = (target_role (invs ?W 0) = FIRST_PLAYER_ROLE)"
    by blast
  from c have p: "payload = []" by (simp add: scene_defs FIRST_PLAYER_ROLE_def)
  from d have q: "snd (snd ?r) = Some initial_state" by (simp add: scene_defs FIRST_PLAYER_ROLE_def)
  from a p have a': "wire (fst (snd ?r)) = [(4, hdr, [])]" by (simp add: scene_defs)
  have "invite_roles 1 = (2, 1)" by (simp add: invite_roles_def)
  with rc a' b q show ?thesis by blast
qed

section \<open>How the example worlds arise\<close>

text \<open>
  The worlds of the worked examples are states of a running server: each is what
  the operations of client.c make of the lobby, for the requests INVITE, ACCEPT
  and MOVE that the text before each lemma lists.
\<close>

lemma world_eqI:
  "clients a = clients b \<Longrightarrow> invs a = invs b \<Longrightarrow> players a = players b \<Longrightarrow> up a = up b
   \<Longrightarrow> wire a = wire b \<Longrightarrow> (a::world) = b"
  by simp

lemma ten_slots:
  "replicate 10 None = [None, None, None, None, None, None, None, None, None, None]"
  by (simp add: eval_nat_numeral)

lemma game_create_board:
  "\<lparr>winner = - 1, nextmover = 1, board = [0, 0, 0, 0, 0, 0, 0, 0, 0]\<rparr> = game_create"
  by (simp add: game_create_def eval_nat_numeral)

lemmas invite_defs = client_make_invitation_def client_add_invitation_def ten_slots

text \<open>Alice invites bob; the invitation is stored at place 0.\<close>

lemma offer_reached:
  "fst (client_make_invitation lobby 0 1 sr tr 0) = 0
   \<and> silent (snd (client_make_invitation lobby 0 1 sr tr 0)) = match_world (offer 0 1 sr tr)"
proof
  show "fst (client_make_invitation lobby 0 1 sr tr 0) = 0"
    by (simp add: scene_defs invite_defs move_defs)
  show "silent (snd (client_make_invitation lobby 0 1 sr tr 0)) = match_world (offer 0 1 sr tr)"
    by (rule world_eqI; simp add: silent_def scene_defs invite_defs move_defs fun_eq_iff)
qed

text \<open>Bob accepts the invitation in which alice plays first.\<close>

lemma game_reached:
  "fst (client_accept_invitation (match_world (offer 0 1 1 2)) 1 0) = 0
   \<and> silent (fst (snd (client_accept_invitation (match_world (offer 0 1 1 2)) 1 0)))
       = match_world (playing 0 1 1 2 1 [0, 0, 0, 0, 0, 0, 0, 0, 0])"
proof
  show "fst (client_accept_invitation (match_world (offer 0 1 1 2)) 1 0) = 0"
    by (simp add: scene_defs accept_defs)
  show "silent (fst (snd (client_accept_invitation (match_world (offer 0 1 1 2)) 1 0)))
       = match_world (playing 0 1 1 2 1 [0, 0, 0, 0, 0, 0, 0, 0, 0])"
    by (rule world_eqI;
        simp add: silent_def scene_defs accept_defs game_create_board fun_eq_iff)
qed

text \<open>Alice and bob move in turn: alice takes 1 and 2, bob 4 and 5.\<close>

lemma two_in_a_row_reached:
  "map_option silent
     (play (match_world (playing 0 1 1 2 1 [0, 0, 0, 0, 0, 0, 0, 0, 0]))
        [(0, 0, ''1''), (1, 0, ''4''), (0, 0, ''2''), (1, 0, ''5'')])
     = Some (match_world (playing 0 1 1 2 1 [1, 1, 0, 2, 2, 0, 0, 0, 0]))"
  by (simp add: scene_defs move_defs; rule world_eqI;
      simp add: silent_def fun_eq_iff)

text \<open>
  Alice and bob move in turn until one square is left: alice takes 1, 3, 5 and
  8, bob 2, 4, 6 and 7. No line is complete.
\<close>

lemma last_square_reached:
  "map_option silent
     (play (match_world (playing 0 1 1 2 1 [0, 0, 0, 0, 0, 0, 0, 0, 0]))
        [(0, 0, ''1''), (1, 0, ''2''), (0, 0, ''3''), (1, 0, ''4''),
         (0, 0, ''5''), (1, 0, ''6''), (0, 0, ''8''), (1, 0, ''7'')])
     = Some (match_world (playing 0 1 1 2 1 [1, 2, 1, 2, 1, 2, 2, 1, 0]))"
  by (simp add: scene_defs move_defs; rule world_eqI;
      simp add: silent_def fun_eq_iff)

text \<open>
  Alice invites carol (the invitation is stored at place 7), then bob, who is to
  play first (place 0); bob accepts.
\<close>

lemma second_match_reached:
  "silent (fst (snd (client_accept_invitation
      (snd (client_make_invitation (snd (client_make_invitation lobby 0 2 1 2 7)) 0 1 2 1 0))
      1 0)))
     = second_match"
  by (rule world_eqI;
      simp add: silent_def scene_defs invite_defs accept_defs game_create_board move_defs
        fun_eq_iff)

section \<open>Revoking an invitation\<close>

lemma first_index_None: "(first_index l v = None) = (v \<notin> set l)"
  by (induction l) auto

lemma first_index_Some: "first_index l v = Some i \<Longrightarrow> i < length l \<and> l ! i = v"
  by (induction l arbitrary: i) (auto split: if_splits)

lemma first_index_removed:
  "count_list l v = 1 \<Longrightarrow> first_index l v = Some i \<Longrightarrow> u \<noteq> v \<Longrightarrow> v \<notin> set (l[i := u])"
proof (induction l arbitrary: i)
  case Nil
  then show ?case by simp
next
  case (Cons x xs)
  show ?case
  proof (cases "x = v")
    case True
    with Cons.prems have "i = 0" and "count_list xs v = 0" by auto
    then have "v \<notin> set xs" by (simp add: count_list_0_iff)
    with \<open>i = 0\<close> Cons.prems(3) show ?thesis by auto
  next
    case False
    with Cons.prems obtain j where j: "first_index xs v = Some j" "i = Suc j"
      by (auto split: if_splits)
    from False Cons.prems have "count_list xs v = 1" by simp
    from Cons.IH [OF this j(1) Cons.prems(3)] False j(2) show ?thesis by auto
  qed
qed

lemma client_remove_invitation_listed:
  assumes "count_list (invlist (clients w c)) (Some iv) = 1"
  shows "\<exists>i. first_index (invlist (clients w c)) (Some iv) = Some i
     \<and> client_remove_invitation w c iv
         = (Some i, set_invlist w c ((invlist (clients w c))[i := None]))
     \<and> Some iv \<notin> set ((invlist (clients w c))[i := None])"
proof -
  have "Some iv \<in> set (invlist (clients w c))"
    using assms count_list_0_iff [of "invlist (clients w c)" "Some iv"] by auto
  then obtain i where i: "first_index (invlist (clients w c)) (Some iv) = Some i"
    using first_index_None [of "invlist (clients w c)" "Some iv"] by auto
  from first_index_removed [OF assms i] have "Some iv \<notin> set ((invlist (clients w c))[i := None])"
    by simp
  with i show ?thesis by (simp add: client_remove_invitation_def)
qed

text \<open>
  Claim C8, as amended. Let the invitation in the slot, if there is one, be well
  listed. Then \<open>client_revoke_invitation\<close> returns \<open>-1\<close> exactly when the revocation
  is refused (the id is out of range, the slot is empty, the caller is not the
  source, or the invitation is not open) or the REVOKED packet cannot be written to
  the target; otherwise it returns 0. A refused revocation changes nothing. One
  that is not refused removes the invitation from the list of the caller and from
  the list of the target, whether the packet can be written or not; when it can,
  the one packet written goes to the target's descriptor and is REVOKED with role 0,
  no payload, and the index that the target had for the invitation in its
  8-bit id field.
\<close>

theorem revoke_outcome:
  assumes wl: "\<forall>iv. inv_id < length (invlist (clients w c))
      \<and> invlist (clients w c) ! inv_id = Some iv \<longrightarrow> well_listed w iv"
  shows "(fst (client_revoke_invitation w c inv_id) = - 1)
      = (revoke_refused w c inv_id
         \<or> (\<exists>iv. invlist (clients w c) ! inv_id = Some iv
               \<and> \<not> up w (connfd (clients w (target (invs w iv))))))
    \<and> (fst (client_revoke_invitation w c inv_id) = - 1
        \<or> fst (client_revoke_invitation w c inv_id) = 0)
    \<and> (if revoke_refused w c inv_id then snd (client_revoke_invitation w c inv_id) = w
        else (\<exists>iv t. invlist (clients w c) ! inv_id = Some iv
               \<and> first_index (invlist (clients w (target (invs w iv)))) (Some iv) = Some t
               \<and> Some iv \<notin> set (invlist (clients (snd (client_revoke_invitation w c inv_id)) c))
               \<and> Some iv \<notin> set (invlist (clients (snd (client_revoke_invitation w c inv_id))
                                     (target (invs w iv))))
               \<and> wire (snd (client_revoke_invitation w c inv_id))
                  = wire w @
                    (if up w (connfd (clients w (target (invs w iv))))
                     then [(connfd (clients w (target (invs w iv))),
                            \<lparr>ptype = JEUX_REVOKED_PKT, pid = of_nat t, prole = 0, psize = 0\<rparr>,
                            [])]
                     else [])))"
proof (cases "revoke_refused w c inv_id")
  case True
  note refused = True
  show ?thesis
  proof (cases "inv_id < length (invlist (clients w c))")
    case False
    then have "client_revoke_invitation w c inv_id = (- 1, w)"
      by (simp add: client_revoke_invitation_def)
    with refused show ?thesis by simp
  next
    case True
    note inr = True
    show ?thesis
    proof (cases "invlist (clients w c) ! inv_id")
      case None
      with inr have "client_revoke_invitation w c inv_id = (- 1, w)"
        by (simp add: client_revoke_invitation_def)
      with refused show ?thesis by simp
    next
      case (Some iv)
      with wl inr have w: "well_listed w iv" by simp
      from refused inr Some
      have "c \<noteq> source (invs w iv) \<or> inv_state (invs w iv) \<noteq> INV_OPEN_STATE"
        by (simp add: revoke_refused_def)
      with w have "c \<noteq> source (invs w iv) \<or> inv_game (invs w iv) \<noteq> None"
        by (auto simp: well_listed_def)
      with inr Some have "client_revoke_invitation w c inv_id = (- 1, w)"
        by (auto simp: client_revoke_invitation_def)
      with refused show ?thesis by simp
    qed
  qed
next
  case False
  then have inr: "inv_id < length (invlist (clients w c))"
    by (auto simp: revoke_refused_def)
  from False inr obtain iv where slot: "invlist (clients w c) ! inv_id = Some iv"
    by (cases "invlist (clients w c) ! inv_id") (auto simp: revoke_refused_def)
  from False inr slot have src: "c = source (invs w iv)"
    and opn: "inv_state (invs w iv) = INV_OPEN_STATE"
    by (auto simp: revoke_refused_def)
  from wl inr slot have w: "well_listed w iv" by simp
  from w opn have nogame: "inv_game (invs w iv) = None" by (simp add: well_listed_def)
  from w src have ne: "c \<noteq> target (invs w iv)" by (simp add: well_listed_def)
  let ?t = "target (invs w iv)"
  from w src have c1: "count_list (invlist (clients w c)) (Some iv) = 1"
    by (simp add: well_listed_def)
  from client_remove_invitation_listed [OF c1] obtain i where
    r1: "client_remove_invitation w c iv
          = (Some i, set_invlist w c ((invlist (clients w c))[i := None]))"
    and g1: "Some iv \<notin> set ((invlist (clients w c))[i := None])"
    by blast
  let ?w1 = "set_invlist w c ((invlist (clients w c))[i := None])"
  have t1: "invlist (clients ?w1 ?t) = invlist (clients w ?t)"
    using ne by (simp add: set_invlist_def)
  have i1: "invs ?w1 = invs w" by (simp add: set_invlist_def)
  from w have "count_list (invlist (clients ?w1 ?t)) (Some iv) = 1"
    by (simp add: well_listed_def t1)
  from client_remove_invitation_listed [OF this] obtain t where
    ft: "first_index (invlist (clients w ?t)) (Some iv) = Some t"
    and r2: "client_remove_invitation ?w1 ?t iv
          = (Some t, set_invlist ?w1 ?t ((invlist (clients w ?t))[t := None]))"
    and g2: "Some iv \<notin> set ((invlist (clients w ?t))[t := None])"
    by (auto simp: t1)
  let ?w2 = "set_invlist ?w1 ?t ((invlist (clients w ?t))[t := None])"
  have res: "client_revoke_invitation w c inv_id
      = client_send_packet ?w2 ?t (mk_header JEUX_REVOKED_PKT t 0 0) None"
    using inr slot src nogame r1 r2 i1
    by (simp add: client_revoke_invitation_def set_invlist_def)
  have l2c: "invlist (clients ?w2 c) = (invlist (clients w c))[i := None]"
    using ne by (simp add: set_invlist_def)
  have l2t: "invlist (clients ?w2 ?t) = (invlist (clients w ?t))[t := None]"
    by (simp add: set_invlist_def)
  have fd: "connfd (clients ?w2 ?t) = connfd (clients w ?t)"
    using ne by (simp add: set_invlist_def)
  have upw: "up ?w2 = up w" and wirew: "wire ?w2 = wire w"
    by (simp_all add: set_invlist_def)
  show ?thesis
  proof (cases "up w (connfd (clients w ?t))")
    case True
    then have "client_revoke_invitation w c inv_id
        = (0, ?w2\<lparr>wire := wire w @ [(connfd (clients w ?t),
              \<lparr>ptype = JEUX_REVOKED_PKT, pid = of_nat t, prole = 0, psize = 0\<rparr>, [])]\<rparr>)"
      by (simp add: res client_send_packet_def proto_send_packet_def fd upw wirew mk_header_def)
    with False slot ft g1 g2 l2c l2t True show ?thesis by simp
  next
    case down: False
    then have "client_revoke_invitation w c inv_id = (- 1, ?w2)"
      by (simp add: res client_send_packet_def proto_send_packet_def fd upw)
    with False slot ft g1 g2 l2c l2t down wirew show ?thesis by simp
  qed
qed

theorem revoke_outcome_witness:
  "well_listed (match_world (offer 0 1 2 1)) 0
   \<and> \<not> revoke_refused (match_world (offer 0 1 2 1)) 0 0
   \<and> fst (client_revoke_invitation (match_world (offer 0 1 2 1)) 0 0) = 0
   \<and> Some 0 \<notin> set (invlist (clients
         (snd (client_revoke_invitation (match_world (offer 0 1 2 1)) 0 0)) 0))
   \<and> Some 0 \<notin> set (invlist (clients
         (snd (client_revoke_invitation (match_world (offer 0 1 2 1)) 0 0)) 1))
   \<and> wire (snd (client_revoke_invitation (match_world (offer 0 1 2 1)) 0 0))
       = [(5, \<lparr>ptype = JEUX_REVOKED_PKT, pid = 0, prole = 0, psize = 0\<rparr>, [])]"
proof -
  let ?W = "match_world (offer 0 1 2 1)"
  have wl0: "well_listed ?W 0"
    by (simp add: well_listed_def scene_defs)
  have wl: "\<forall>iv. 0 < length (invlist (clients ?W 0))
      \<and> invlist (clients ?W 0) ! 0 = Some iv \<longrightarrow> well_listed ?W iv"
    using wl0 by (simp add: scene_defs)
  have nr: "\<not> revoke_refused ?W 0 0"
    by (simp add: revoke_refused_def scene_defs)
  have upw: "up ?W (connfd (clients ?W (target (invs ?W 0))))"
    by (simp add: scene_defs)
  have slot: "invlist (clients ?W 0) ! 0 = Some 0" by (simp add: scene_defs)
  have tgt: "target (invs ?W 0) = 1" "connfd (clients ?W 1) = 5" "wire ?W = []"
    by (simp_all add: scene_defs)
  have ft: "first_index (invlist (clients ?W 1)) (Some 0) = Some 0"
    by (simp add: scene_defs)
  from revoke_outcome [OF wl] nr upw slot
  have a: "fst (client_revoke_invitation ?W 0 0) = 0"
    by auto
  from revoke_outcome [OF wl] nr slot
  have b: "\<exists>t. first_index (invlist (clients ?W (target (invs ?W 0)))) (Some 0) = Some t
     \<and> Some 0 \<notin> set (invlist (clients (snd (client_revoke_invitation ?W 0 0)) 0))
     \<and> Some 0 \<notin> set (invlist (clients (snd (client_revoke_invitation ?W 0 0))
                          (target (invs ?W 0))))
     \<and> wire (snd (client_revoke_invitation ?W 0 0))
        = wire ?W @
          (if up ?W (connfd (clients ?W (target (invs ?W 0))))
           then [(connfd (clients ?W (target (invs ?W 0))),
                  \<lparr>ptype = JEUX_REVOKED_PKT, pid = of_nat t, prole = 0, psize = 0\<rparr>, [])]
           else [])"
    by auto
  from b ft upw tgt
  have c: "Some 0 \<notin> set (invlist (clients (snd (client_revoke_invitation ?W 0 0)) 0))
     \<and> Some 0 \<notin> set (invlist (clients (snd (client_revoke_invitation ?W 0 0)) 1))
     \<and> wire (snd (client_revoke_invitation ?W 0 0))
        = [(5, \<lparr>ptype = JEUX_REVOKED_PKT, pid = 0, prole = 0, psize = 0\<rparr>, [])]"
    by auto
  from wl0 nr a c show ?thesis by blast
qed

lemmas revoke_defs = client_revoke_invitation_def client_remove_invitation_def
  client_send_packet_def proto_send_packet_def mk_header_def

text \<open>
  The claim as it was stated fails: alice has invited bob, the invitation is open
  and in slot 0 of both, bob's descriptor 5 cannot be written. None of the four
  reasons holds, the invitation leaves both lists, and the call returns \<open>-1\<close>.
\<close>

theorem revoke_fails_on_dead_wire:
  "fst (client_revoke_invitation (unplug (match_world (offer 0 1 2 1)) 5) 0 0) = - 1
   \<and> 0 < length (invlist (clients (unplug (match_world (offer 0 1 2 1)) 5) 0))
   \<and> invlist (clients (unplug (match_world (offer 0 1 2 1)) 5) 0) ! 0 = Some 0
   \<and> source (invs (unplug (match_world (offer 0 1 2 1)) 5) 0) = 0
   \<and> inv_state (invs (unplug (match_world (offer 0 1 2 1)) 5) 0) = INV_OPEN_STATE
   \<and> \<not> revoke_refused (unplug (match_world (offer 0 1 2 1)) 5) 0 0
   \<and> Some 0 \<notin> set (invlist (clients
         (snd (client_revoke_invitation (unplug (match_world (offer 0 1 2 1)) 5) 0 0)) 0))
   \<and> Some 0 \<notin> set (invlist (clients
         (snd (client_revoke_invitation (unplug (match_world (offer 0 1 2 1)) 5) 0 0)) 1))"
  by (simp add: scene_defs revoke_defs revoke_refused_def)

section \<open>The registry and its barrier\<close>

lemma filter_update_fill:
  "i < length l \<Longrightarrow> l ! i = None \<Longrightarrow>
   length (filter (\<lambda>x. x \<noteq> None) (l[i := Some c])) = Suc (length (filter (\<lambda>x. x \<noteq> None) l))"
proof (induction l arbitrary: i)
  case Nil
  then show ?case by simp
next
  case (Cons x xs)
  then show ?case by (cases i) auto
qed

lemma filter_update_clear:
  "i < length l \<Longrightarrow> l ! i = Some c \<Longrightarrow>
   Suc (length (filter (\<lambda>x. x \<noteq> None) (l[i := None]))) = length (filter (\<lambda>x. x \<noteq> None) l)"
proof (induction l arbitrary: i)
  case Nil
  then show ?case by simp
next
  case (Cons x xs)
  then show ?case by (cases i) auto
qed

lemma creg_init_tracks: "barrier_tracks_count (creg_init n)"
  by (simp add: barrier_tracks_count_def creg_init_def)

lemma creg_register_full:
  "None \<notin> set (buf cr) \<Longrightarrow> creg_register cr cp = Some (None, cr)"
  using first_index_None [of "buf cr" None] by (simp add: creg_register_def)

lemma creg_register_tracks:
  assumes "barrier_tracks_count cr"
  shows "\<exists>r cr'. creg_register cr cp = Some (r, cr') \<and> barrier_tracks_count cr'
     \<and> (r = None) = (None \<notin> set (buf cr))
     \<and> (empty cr' \<noteq> empty cr) = (count cr = 0 \<and> count cr' = 1)"
proof (cases "first_index (buf cr) None")
  case None
  then show ?thesis
    using assms first_index_None [of "buf cr" None]
    by (auto simp: creg_register_def)
next
  case (Some i)
  from first_index_Some [OF Some] have i: "i < length (buf cr)" "buf cr ! i = None" by auto
  from Some have inset: "None \<in> set (buf cr)"
    using first_index_None [of "buf cr" None] by auto
  show ?thesis
    using assms Some inset filter_update_fill [OF i, of cp]
    by (auto simp: creg_register_def barrier_tracks_count_def sem_P_def)
qed

lemma creg_unregister_tracks:
  assumes "barrier_tracks_count cr"
  shows "barrier_tracks_count (snd (creg_unregister cr c))
     \<and> (empty (snd (creg_unregister cr c)) \<noteq> empty cr)
        = (count cr \<noteq> 0 \<and> count (snd (creg_unregister cr c)) = 0)"
proof (cases "first_index (buf cr) (Some c)")
  case None
  then show ?thesis using assms by (auto simp: creg_unregister_def barrier_tracks_count_def)
next
  case (Some i)
  from first_index_Some [OF Some] have i: "i < length (buf cr)" "buf cr ! i = Some c" by auto
  show ?thesis
    using assms Some filter_update_clear [OF i]
    by (auto simp: creg_unregister_def barrier_tracks_count_def sem_V_def Let_def)
qed

lemma wait_returns_iff_empty:
  "barrier_tracks_count cr \<Longrightarrow> (creg_wait_for_empty cr \<noteq> None) = (count cr = 0)"
  by (auto simp: creg_wait_for_empty_def barrier_tracks_count_def sem_P_def)

text \<open>
  Claim C9 says that \<open>creg_wait_for_empty\<close> returns if and only if no client is
  registered. The lemmas above show that registering and unregistering keep one
  unit in the semaphore exactly while the count is 0, that registering fails
  exactly when every slot is taken, and that a wait on such a registry returns
  exactly when the count is 0. But the wait takes the unit and does not give it
  back: on the registry of 64 slots as \<open>creg_init\<close> makes it, a first call
  returns, and a second call stops at the semaphore although the count is still 0.
\<close>

theorem second_wait_for_empty_blocks:
  "creg_wait_for_empty (creg_init 64)
     = Some \<lparr>buf = replicate 64 None, count = 0, empty = 0\<rparr>
   \<and> creg_wait_for_empty \<lparr>buf = replicate 64 None, count = 0, empty = 0\<rparr> = None"
  by (simp add: creg_wait_for_empty_def creg_init_def sem_P_def)

section \<open>Receiving and the end of the stream\<close>

lemma proto_recv_packet_result:
  "fst (proto_recv_packet rd c hdr) = - 1 \<or> fst (proto_recv_packet rd c hdr) = 0"
  by (simp add: proto_recv_packet_def Let_def split: prod.splits)

lemma proto_recv_packet_fails_iff:
  "(fst (proto_recv_packet rd c hdr) = - 1) =
    (case rd c 16 of (n, got, c1) \<Rightarrow>
       n = - 1 \<or> (ntohs_size (got @ drop (length got) hdr) \<noteq> 0
                  \<and> fst (rd c1 (ntohs_size (got @ drop (length got) hdr))) = - 1))"
  by (auto simp: proto_recv_packet_def Let_def split: prod.splits)

lemma service_loop_leaves_on_error:
  "fst (proto_recv_packet rd c hdr) \<noteq> 0 \<Longrightarrow>
   service_loop (Suc fuel) rd body c hdr st = Some (fst (snd (proto_recv_packet rd c hdr)), st)"
  by (auto split: prod.splits)

lemma eof_short_received:
  "\<exists>p. proto_recv_packet rio_readn_short at_eof hdr = (0, at_eof, hdr, p)"
  by (simp add: proto_recv_packet_def rio_readn_short_def at_eof_def Let_def)

lemma eof_short_never_leaves:
  "service_loop fuel rio_readn_short body at_eof hdr st = None"
proof (induction fuel arbitrary: hdr st)
  case 0
  then show ?case by simp
next
  case (Suc fuel)
  from eof_short_received [of hdr] obtain p where
    "proto_recv_packet rio_readn_short at_eof hdr = (0, at_eof, hdr, p)" by blast
  then show ?case using Suc.IH by (simp split: prod.splits)
qed

lemma read_error_reported:
  "proto_recv_packet rio_readn_short read_error hdr = (- 1, read_error, hdr, None)"
  by (simp add: proto_recv_packet_def rio_readn_short_def read_error_def Let_def)

text \<open>
  Claim C1 says that when the stream ends before any byte of a header has been
  read, \<open>proto_recv_packet\<close> reports the end of the stream, distinctly from an
  error, and the service loop is left. The code compares the result of
  \<open>rio_readn\<close> with \<open>-1\<close> only. At the end of the stream \<open>rio_readn\<close> returns the
  count 0, so \<open>proto_recv_packet\<close> returns 0, the return code of a received packet,
  leaves the connection and the header buffer as they were, and the loop
  \<open>while(!(n = proto_recv_packet(...)))\<close> runs its body and calls it again: for
  every header buffer \<open>hdr\<close>, every body and every number of iterations the loop
  has not been left. The comments of server.c say that the service loop ends
  when EOF is seen. Only a read error is reported, by \<open>-1\<close>, and ends the loop.
\<close>

theorem end_of_stream_received_as_packet:
  "fst (proto_recv_packet rio_readn_short at_eof hdr) = 0
   \<and> fst (snd (proto_recv_packet rio_readn_short at_eof hdr)) = at_eof
   \<and> fst (snd (snd (proto_recv_packet rio_readn_short at_eof hdr))) = hdr
   \<and> service_loop fuel rio_readn_short body at_eof hdr st = None
   \<and> fst (proto_recv_packet rio_readn_short read_error hdr) = - 1
   \<and> service_loop (Suc fuel) rio_readn_short body read_error hdr st = Some (read_error, st)"
proof -
  from eof_short_received [of hdr] obtain p where
    e: "proto_recv_packet rio_readn_short at_eof hdr = (0, at_eof, hdr, p)" by blast
  have n: "service_loop fuel rio_readn_short body at_eof hdr st = None"
    by (rule eof_short_never_leaves)
  have r: "fst (proto_recv_packet rio_readn_short read_error hdr) = - 1"
    by (simp add: read_error_reported)
  have l: "service_loop (Suc fuel) rio_readn_short body read_error hdr st
      = Some (read_error, st)"
    using service_loop_leaves_on_error [of rio_readn_short read_error hdr fuel body st]
    by (simp add: read_error_reported)
  from e n r l show ?thesis by simp
qed

section \<open>Start-up without a port\<close>

text \<open>
  Claim C3 says that without a usable \<open>-p\<close> option the process exits with a
  non-zero status, and that status 0 occurs only after SIGHUP. \<open>main\<close> exits with
  status 0 when there are fewer than three arguments, when \<open>-p\<close> is the last
  argument, and when there is no \<open>-p\<close>; a SIGHUP after a regular start also
  ends in status 0.
\<close>

theorem missing_port_exits_with_status_0:
  "main [''jeux''] True = Exited 0
   \<and> main [''jeux'', ''-p''] True = Exited 0
   \<and> main [''jeux'', ''-v'', ''-p''] True = Exited 0
   \<and> main [''jeux'', ''3333'', ''-v''] True = Exited 0
   \<and> sighup (main [''jeux'', ''-p'', ''3333''] True) = Exited 0"
  by (simp add: main_def port_search.simps sighup_def EXIT_SUCCESS_def)

section \<open>Turn order in the game module\<close>

lemma game_parse_move_roles:
  "r = 1 \<or> r = 2 \<Longrightarrow>
   game_parse_move (Some g) r (Some s) = Some \<lparr>spot = atoi1 s - 1, role = r\<rparr>"
  by (auto simp: game_parse_move_def NULL_ROLE_def)

lemma game_apply_move_ignores_nextmover:
  "fst (game_apply_move (Some (g\<lparr>nextmover := n\<rparr>)) mp) = fst (game_apply_move (Some g) mp)"
  by (simp add: game_apply_move_def Let_def split: option.split)

lemma two_moves_by_first_player:
  "game_parse_move (Some game_create) 1 (Some ''1'') = Some \<lparr>spot = 0, role = 1\<rparr>
   \<and> game_apply_move (Some game_create) (Some \<lparr>spot = 0, role = 1\<rparr>)
       = (0, Some \<lparr>winner = - 1, nextmover = 2, board = [1, 0, 0, 0, 0, 0, 0, 0, 0]\<rparr>)
   \<and> game_parse_move (Some \<lparr>winner = - 1, nextmover = 2, board = [1, 0, 0, 0, 0, 0, 0, 0, 0]\<rparr>)
         1 (Some ''2'') = Some \<lparr>spot = 1, role = 1\<rparr>
   \<and> game_apply_move (Some \<lparr>winner = - 1, nextmover = 2, board = [1, 0, 0, 0, 0, 0, 0, 0, 0]\<rparr>)
         (Some \<lparr>spot = 1, role = 1\<rparr>)
       = (0, Some \<lparr>winner = - 1, nextmover = 1, board = [1, 1, 0, 0, 0, 0, 0, 0, 0]\<rparr>)"
  by (simp add: game_parse_move_def game_apply_move_def game_create_def atoi1_def
      NULL_ROLE_def check_def Let_def eval_nat_numeral)

text \<open>
  Claim C10. The game module does not enforce turn alternation. For the roles
  FIRST_PLAYER (1) and SECOND_PLAYER (2) \<open>game_parse_move\<close> returns a move whatever
  the game's next mover is (its comparison with the next mover is guarded by
  \<open>role == NULL_ROLE\<close>); the return code of \<open>game_apply_move\<close> does not depend on
  the next mover; and there is a game, the new one, in which the first player
  makes two consecutive moves (squares 1 and 2) that both parse and both apply
  with return code 0, the second one while the game says that the second player
  is to move.
\<close>

theorem turn_alternation_not_enforced:
  "(\<forall>g s. game_parse_move (Some g) 1 (Some s) = Some \<lparr>spot = atoi1 s - 1, role = 1\<rparr>
         \<and> game_parse_move (Some g) 2 (Some s) = Some \<lparr>spot = atoi1 s - 1, role = 2\<rparr>)
   \<and> (\<forall>g n mp. fst (game_apply_move (Some (g\<lparr>nextmover := n\<rparr>)) mp)
         = fst (game_apply_move (Some g) mp))
   \<and> (\<exists>m1 g1 m2 g2.
         game_parse_move (Some game_create) 1 (Some ''1'') = Some m1
         \<and> game_apply_move (Some game_create) (Some m1) = (0, Some g1)
         \<and> nextmover g1 = 2
         \<and> game_parse_move (Some g1) 1 (Some ''2'') = Some m2
         \<and> role m2 = 1
         \<and> game_apply_move (Some g1) (Some m2) = (0, Some g2))"
proof (intro conjI allI)
  fix g s
  show "game_parse_move (Some g) 1 (Some s) = Some \<lparr>spot = atoi1 s - 1, role = 1\<rparr>"
    by (simp add: game_parse_move_roles)
  show "game_parse_move (Some g) 2 (Some s) = Some \<lparr>spot = atoi1 s - 1, role = 2\<rparr>"
    by (simp add: game_parse_move_roles)
next
  fix g n mp
  show "fst (game_apply_move (Some (g\<lparr>nextmover := n\<rparr>)) mp) = fst (game_apply_move (Some g) mp)"
    by (rule game_apply_move_ignores_nextmover)
next
  let ?g1 = "\<lparr>winner = - 1, nextmover = 2, board = [1, 0, 0, 0, 0, 0, 0, 0, 0]\<rparr>"
  let ?g2 = "\<lparr>winner = - 1, nextmover = 1, board = [1, 1, 0, 0, 0, 0, 0, 0, 0]\<rparr>"
  have "game_parse_move (Some game_create) 1 (Some ''1'') = Some \<lparr>spot = 0, role = 1\<rparr>
      \<and> game_apply_move (Some game_create) (Some \<lparr>spot = 0, role = 1\<rparr>) = (0, Some ?g1)
      \<and> nextmover ?g1 = 2
      \<and> game_parse_move (Some ?g1) 1 (Some ''2'') = Some \<lparr>spot = 1, role = 1\<rparr>
      \<and> role \<lparr>spot = 1, role = 1\<rparr> = 1
      \<and> game_apply_move (Some ?g1) (Some \<lparr>spot = 1, role = 1\<rparr>) = (0, Some ?g2)"
    using two_moves_by_first_player by simp
  then show "\<exists>m1 g1 m2 g2.
         game_parse_move (Some game_create) 1 (Some ''1'') = Some m1
         \<and> game_apply_move (Some game_create) (Some m1) = (0, Some g1)
         \<and> nextmover g1 = 2
         \<and> game_parse_move (Some g1) 1 (Some ''2'') = Some m2
         \<and> role m2 = 1
         \<and> game_apply_move (Some g1) (Some m2) = (0, Some g2)"
    by blast
qed

end
